theory Spec2Isabelle
  imports Main "HOL-Library.Sublist"
begin

section \<open>Python primitives used by simple.py\<close>

text \<open>
  The exceptions the modelled code can raise by itself: integer division or modulo by
  zero, a list index out of range, and \<^verbatim>\<open>int()\<close> applied to a string that is
  not a number. \<open>Raised\<close> stands for an exception that comes out of applying a rule
  predicate handed to \<^verbatim>\<open>apply_rules\<close> (a wrong number of positional arguments, or
  whatever the predicate raises itself), labelled by the caller.
\<close>

datatype py_error = ZeroDivisionError | IndexError | ValueError | Raised string

text \<open>
  \<^verbatim>\<open>a // b\<close> and \<^verbatim>\<open>a % b\<close> on Python integers: floor division and the
  remainder with the sign of the divisor, as \<open>div\<close> and \<open>mod\<close> on \<open>int\<close>; a zero
  divisor raises.
\<close>

definition py_floordiv :: "int \<Rightarrow> int \<Rightarrow> py_error + int" where
  "py_floordiv a b = (if b = 0 then Inl ZeroDivisionError else Inr (a div b))"

definition py_mod :: "int \<Rightarrow> int \<Rightarrow> py_error + int" where
  "py_mod a b = (if b = 0 then Inl ZeroDivisionError else Inr (a mod b))"

text \<open>
  \<^verbatim>\<open>s.split(c)\<close> for a one-character separator: the pieces between the
  occurrences of \<open>c\<close>, in order; there is always at least one piece, and \<open>k\<close>
  occurrences give \<open>k + 1\<close> pieces (empty ones included).
\<close>

fun split_str :: "char \<Rightarrow> string \<Rightarrow> string list" where
  "split_str c [] = [[]]"
| "split_str c (x # xs) =
     (if x = c then [] # split_str c xs
      else (case split_str c xs of
              [] \<Rightarrow> [[x]]
            | piece # pieces \<Rightarrow> (x # piece) # pieces))"

text \<open>\<^verbatim>\<open>xs[i]\<close> for a literal index \<open>i \<ge> 0\<close>: IndexError past the end.\<close>

definition py_index :: "'a list \<Rightarrow> nat \<Rightarrow> py_error + 'a" where
  "py_index xs i = (if i < length xs then Inr (xs ! i) else Inl IndexError)"

text \<open>
  \<^verbatim>\<open>int(s)\<close> for a byte string, base ten: white space around the number is
  dropped, one sign may lead, and what is left must be one or more decimal digits;
  anything else is a ValueError. The result is unbounded.
\<close>

definition is_space :: "char \<Rightarrow> bool" where
  "is_space c \<longleftrightarrow> c \<in> {CHR '' '', CHR 0x09, CHR 0x0A, CHR 0x0B, CHR 0x0C, CHR 0x0D}"

definition is_digit :: "char \<Rightarrow> bool" where
  "is_digit c \<longleftrightarrow> 48 \<le> (of_char c :: nat) \<and> (of_char c :: nat) \<le> 57"

definition digit_value :: "char \<Rightarrow> int" where
  "digit_value c = int (of_char c) - 48"

definition digits_value :: "string \<Rightarrow> int" where
  "digits_value ds = foldl (\<lambda>acc c. 10 * acc + digit_value c) 0 ds"

definition strip :: "string \<Rightarrow> string" where
  "strip s = rev (dropWhile is_space (rev (dropWhile is_space s)))"

definition py_int :: "string \<Rightarrow> py_error + int" where
  "py_int s =
     (let t = strip s;
          (sign, ds) = (case t of
                          [] \<Rightarrow> (1, t)
                        | c # r \<Rightarrow> if c = CHR ''-'' then (- 1, r)
                                   else if c = CHR ''+'' then (1, r)
                                   else (1, t))
      in if ds \<noteq> [] \<and> list_all is_digit ds then Inr (sign * digits_value ds)
         else Inl ValueError)"

text \<open>\<^verbatim>\<open>str(n)\<close> for \<open>n \<ge> 0\<close>: the decimal digits, most significant first.\<close>

definition digit_char :: "nat \<Rightarrow> char" where
  "digit_char d = char_of (48 + d)"

fun py_str_nat :: "nat \<Rightarrow> string" where
  "py_str_nat n =
     (if n < 10 then [digit_char n] else py_str_nat (n div 10) @ [digit_char (n mod 10)])"

declare py_str_nat.simps [simp del]

text \<open>\<^verbatim>\<open>s.startswith(p)\<close> and \<^verbatim>\<open>s.endswith(p)\<close>.\<close>

definition startswith :: "string \<Rightarrow> string \<Rightarrow> bool" where
  "startswith s p \<longleftrightarrow> take (length p) s = p"

definition endswith :: "string \<Rightarrow> string \<Rightarrow> bool" where
  "endswith s p \<longleftrightarrow> length p \<le> length s \<and> drop (length s - length p) s = p"

text \<open>
  \<^verbatim>\<open>os.path.join(a, *p)\<close> on POSIX: a component that starts with a slash
  discards what came before it; otherwise components are joined by one slash, none
  being added after an empty path or one that already ends in a slash.
\<close>

definition join_step :: "string \<Rightarrow> string \<Rightarrow> string" where
  "join_step path b =
     (if startswith b ''/'' then b
      else if path = [] \<or> endswith path ''/'' then path @ b
      else path @ ''/'' @ b)"

definition path_join :: "string \<Rightarrow> string list \<Rightarrow> string" where
  "path_join a p = foldl join_step a p"

section \<open>Grid addressing\<close>

text \<open>
  \<^verbatim>\<open>index_to_location(filename, width, grid_size)\<close>, lines 184-190. The
  statements run in the source's order, so a zero \<open>grid_size\<close> raises before the
  file name is looked at. The returned list \<^verbatim>\<open>[row, col]\<close> is the pair.
\<close>

definition index_to_location :: "string \<Rightarrow> int \<Rightarrow> int \<Rightarrow> py_error + (int \<times> int)" where
  "index_to_location filename width grid_size =
     (case py_floordiv width grid_size of
        Inl e \<Rightarrow> Inl e
      | Inr q \<Rightarrow>
          let per_row = q + 1 in
          (case py_index (split_str CHR ''_'' filename) 1 of
             Inl e \<Rightarrow> Inl e
           | Inr seg \<Rightarrow>
               (case py_index (split_str CHR ''.'' seg) 0 of
                  Inl e \<Rightarrow> Inl e
                | Inr s \<Rightarrow>
                    (case py_int s of
                       Inl e \<Rightarrow> Inl e
                     | Inr idx \<Rightarrow>
                         (case py_floordiv idx per_row of
                            Inl e \<Rightarrow> Inl e
                          | Inr row \<Rightarrow>
                              (case py_mod idx per_row of
                                 Inl e \<Rightarrow> Inl e
                               | Inr col \<Rightarrow> Inr (row, col)))))))"

text \<open>
  The part of a file name that reaches \<^verbatim>\<open>int()\<close> in \<open>index_to_location\<close>:
  what follows the first underscore, up to the next underscore or dot (or the end).
  Lemma \<open>index_to_location_unfold\<close> below derives this from the two \<^verbatim>\<open>split\<close>
  calls of the source.
\<close>

definition index_text :: "string \<Rightarrow> string" where
  "index_text filename =
     takeWhile (\<lambda>x. x \<noteq> CHR ''_'' \<and> x \<noteq> CHR ''.'')
       (tl (dropWhile (\<lambda>x. x \<noteq> CHR ''_'') filename))"

section \<open>Configuration, records and collaborators\<close>

text \<open>
  A manifest record is a Python dict from column names to values. A value is a string,
  an integer, or a value made by a collaborator (a coordinate, say), of which the code
  knows nothing: \<open>'v\<close>.
\<close>

datatype 'v cell = StrV string | IntV int | ExtV 'v

type_synonym 'v dict = "string \<Rightarrow> 'v cell option"

text \<open>
  The shared \<^verbatim>\<open>config\<close> object of module \<^verbatim>\<open>config\<close>: the attributes
  simple.py reads or writes. The values it has before the options are parsed are a
  parameter of the run. \<^verbatim>\<open>SCENE_NAME\<close> and \<^verbatim>\<open>LABEL\<close> may be \<^verbatim>\<open>None\<close>.
\<close>

record 'v config =
  WITHTEMPDIR :: bool
  REBUILD :: bool
  ASSEMBLE_IMAGE :: bool
  SLICE_IMAGE :: bool
  GENERATE_MASK_TILES :: bool
  REMOVE_LAND :: bool
  REMOVE_CLOUDS :: bool
  REJECT_TILES :: bool
  BUILD_MANIFEST :: bool
  VISUALIZE_SORT :: bool
  ANNOTATE :: bool
  GRID_SIZE :: int
  LAND_THRESHHOLD :: int
  LAND_SENSITIVITY :: int
  CLOUD_THRESHHOLD :: int
  CLOUD_SENSITIVITY :: int
  LABEL :: "string option"
  SCENE_NAME :: "string option"
  SCENE_DIR :: string
  NEW_MASK :: string
  METADATA_SRC :: string
  JSON_SRC :: string
  INPUT_FILE :: string
  SCRATCH_PATH :: string
  width :: int
  height :: int
  METADATA :: "'v dict"
  RED_CHANNEL :: string
  GREEN_CHANNEL :: string
  BLUE_CHANNEL :: string
  INFRARED_CHANNEL :: string

text \<open>
  The collaborators that return a value (modules \<^verbatim>\<open>image_operations\<close>,
  \<^verbatim>\<open>file_operations\<close>, \<^verbatim>\<open>gis_operations\<close>, \<^verbatim>\<open>xml_operations\<close>), as
  parameters: each function gives what the collaborator returns at the point where the
  run calls it. They are taken to return normally and to leave \<^verbatim>\<open>config\<close> alone; a
  run in which one of them raises ends there and is not described. \<open>'s\<close> is the type of
  a statistics tuple.
\<close>

record ('s, 'v) collaborators =
  get_image_statistics :: "string \<Rightarrow> 's"
  get_dimensions :: "string \<Rightarrow> int \<times> int"
  compute_coordinate_metadata :: "int \<Rightarrow> int \<Rightarrow> int \<Rightarrow> int \<Rightarrow> 'v config \<Rightarrow> 'v dict"
  scratch_exists :: "'v config \<Rightarrow> bool"
  get_files_by_extension :: "string \<Rightarrow> string \<Rightarrow> string list"
  parse_metadata :: "string \<Rightarrow> string \<Rightarrow> string \<Rightarrow> 'v dict"
  find_scene_name :: "'v config \<Rightarrow> string"

text \<open>
  The collaborators called for their effect: the run's trace lists the calls in order,
  each with its arguments other than \<^verbatim>\<open>config\<close>. Calls to the logger are left out:
  they change no value and call no collaborator.
\<close>

datatype 'v event =
    BuildScratch
  | BuildOutput
  | ClampImage string string bool
  | AssembleImage
  | PrepareTiles
  | AcceptTile string
  | WriteManifest string "'v dict list"
  | LabelAll
  | MaybeCleanScratch

section \<open>The rule engine\<close>

text \<open>
  A rule is a callable applied as \<^verbatim>\<open>rule(*statistics)\<close>: it gets the components of
  the statistics tuple positionally and answers true or false, or raises.
\<close>

type_synonym 's rule = "'s \<Rightarrow> py_error + bool"

text \<open>
  The inner loop of \<^verbatim>\<open>apply_rules\<close>, lines 172-176, for one file: the rules are
  tried in order; at the first one that answers false the file name is appended to
  \<^verbatim>\<open>rejects\<close>, \<^verbatim>\<open>done\<close> is set and the loop is left. The result is the
  \<^verbatim>\<open>rejects\<close> list after the loop and the value of \<^verbatim>\<open>done\<close> (or the exception).
\<close>

fun rules_loop ::
  "'s rule list \<Rightarrow> 's \<Rightarrow> string \<Rightarrow> string list \<Rightarrow> string list \<times> (py_error + bool)" where
  "rules_loop [] statistics filename rejects = (rejects, Inr False)"
| "rules_loop (rule # rules) statistics filename rejects =
     (case rule statistics of
        Inl e \<Rightarrow> (rejects, Inl e)
      | Inr ok \<Rightarrow>
          if \<not> ok then (rejects @ [filename], Inr True)
          else rules_loop rules statistics filename rejects)"

text \<open>Lines 168-171: the statistics of one file of a subdirectory of the scratch path.\<close>

definition tile_statistics ::
  "('s, 'v) collaborators \<Rightarrow> 'v config \<Rightarrow> string \<Rightarrow> string \<Rightarrow> 's" where
  "tile_statistics img config subdirectory filename =
     get_image_statistics img (path_join (SCRATCH_PATH config) [subdirectory, filename])"

text \<open>
  The outer loop, lines 166-180, with \<^verbatim>\<open>rejects\<close> (the caller's list, changed in
  place) and \<^verbatim>\<open>accum\<close> passed along. An exception leaves the loop at once; the
  caller's list keeps what was appended before.
\<close>

fun candidates_loop ::
  "('s, 'v) collaborators \<Rightarrow> 'v config \<Rightarrow> string \<Rightarrow> 's rule list \<Rightarrow> string list \<Rightarrow>
   string list \<Rightarrow> string list \<Rightarrow> string list \<times> (py_error + string list)" where
  "candidates_loop img config subdirectory rules [] rejects accum = (rejects, Inr accum)"
| "candidates_loop img config subdirectory rules (filename # candidates) rejects accum =
     (let statistics = tile_statistics img config subdirectory filename
      in case rules_loop rules statistics filename rejects of
           (rejects', Inl e) \<Rightarrow> (rejects', Inl e)
         | (rejects', Inr done) \<Rightarrow>
             if done then candidates_loop img config subdirectory rules candidates rejects' accum
             else candidates_loop img config subdirectory rules candidates rejects'
                    (accum @ [filename]))"

text \<open>
  \<^verbatim>\<open>apply_rules(candidates, rejects, subdirectory, rules)\<close>, lines 161-182. The first
  component of the result is the caller's \<^verbatim>\<open>rejects\<close> list after the call, the
  second the returned \<^verbatim>\<open>accum\<close> or the exception.
\<close>

definition apply_rules ::
  "('s, 'v) collaborators \<Rightarrow> 'v config \<Rightarrow> string list \<Rightarrow> string list \<Rightarrow> string \<Rightarrow>
   's rule list \<Rightarrow> string list \<times> (py_error + string list)" where
  "apply_rules img config candidates rejects subdirectory rules =
     candidates_loop img config subdirectory rules candidates rejects []"

section \<open>The manifest record builder\<close>

text \<open>
  \<^verbatim>\<open>build_dict_for_csv(filename, reason, config)\<close>, lines 192-210. The source's
  locals \<^verbatim>\<open>width\<close> and \<^verbatim>\<open>height\<close> (the tile's own dimensions) are
  \<open>tile_width\<close> and \<open>tile_height\<close> here, apart from \<^verbatim>\<open>config.width\<close>.
  \<^verbatim>\<open>d.update(e)\<close> is \<open>d ++ e\<close>: the keys of \<open>e\<close> get the values of \<open>e\<close>.
\<close>

definition identity_fields ::
  "string \<Rightarrow> string \<Rightarrow> int \<Rightarrow> int \<Rightarrow> int \<Rightarrow> int \<Rightarrow> 'v dict" where
  "identity_fields filename reason row column tile_width tile_height =
     [''#filename1'' \<mapsto> StrV (''after_'' @ filename),
      ''#filename2'' \<mapsto> StrV (''before_'' @ filename),
      ''#reason'' \<mapsto> StrV reason,
      ''#row'' \<mapsto> IntV row,
      ''#column'' \<mapsto> IntV column,
      ''#width'' \<mapsto> IntV tile_width,
      ''#height'' \<mapsto> IntV tile_height]"

definition build_dict_for_csv ::
  "('s, 'v) collaborators \<Rightarrow> string \<Rightarrow> string \<Rightarrow> 'v config \<Rightarrow> py_error + 'v dict" where
  "build_dict_for_csv gis filename reason config =
     (let (tile_width, tile_height) =
            get_dimensions gis (path_join (SCRATCH_PATH config) [''scene'', filename])
      in case index_to_location filename (width config) (GRID_SIZE config) of
           Inl e \<Rightarrow> Inl e
         | Inr (row, column) \<Rightarrow>
             let my_dict = identity_fields filename reason row column tile_width tile_height;
                 coordinate_metadata =
                   compute_coordinate_metadata gis row column tile_width tile_height config
             in Inr (my_dict ++ coordinate_metadata ++ METADATA config))"

section \<open>Option parsing\<close>

text \<open>
  \<^verbatim>\<open>arg.split("=")[1]\<close> and \<^verbatim>\<open>int(arg.split("=")[1])\<close>, as the option
  branches of \<^verbatim>\<open>parse_options\<close> use them.
\<close>

definition option_value :: "string \<Rightarrow> py_error + string" where
  "option_value arg = py_index (split_str CHR ''='' arg) 1"

definition int_option_value :: "string \<Rightarrow> py_error + int" where
  "int_option_value arg = (case option_value arg of Inl e \<Rightarrow> Inl e | Inr v \<Rightarrow> py_int v)"

text \<open>The body of the loop over \<^verbatim>\<open>argv\<close>, lines 66-136, for one argument.\<close>

definition parse_arg :: "string \<Rightarrow> 'v config \<Rightarrow> py_error + 'v config" where
  "parse_arg arg config =
     (if arg = ''simple.py'' then Inr config
      else if arg = ''--help'' \<or> arg = ''-?'' then Inr config
      else if arg = ''--full'' then
        Inr (config\<lparr>WITHTEMPDIR := True, REBUILD := True, ASSEMBLE_IMAGE := True,
               SLICE_IMAGE := True, GENERATE_MASK_TILES := True, REMOVE_LAND := True,
               REMOVE_CLOUDS := True, REJECT_TILES := True, BUILD_MANIFEST := True,
               VISUALIZE_SORT := True\<rparr>)
      else if arg = ''--assemble'' then Inr (config\<lparr>ASSEMBLE_IMAGE := True\<rparr>)
      else if arg = ''--generate-tiles'' then Inr (config\<lparr>SLICE_IMAGE := True\<rparr>)
      else if arg = ''--generate'' then
        Inr (config\<lparr>ASSEMBLE_IMAGE := True, SLICE_IMAGE := True\<rparr>)
      else if arg = ''--clean'' then Inr (config\<lparr>REBUILD := True\<rparr>)
      else if arg = ''--sort-tiles'' then
        Inr (config\<lparr>GENERATE_MASK_TILES := True, REMOVE_LAND := True,
               REMOVE_CLOUDS := True, REJECT_TILES := True\<rparr>)
      else if arg = ''--generate-mask'' then Inr (config\<lparr>GENERATE_MASK_TILES := True\<rparr>)
      else if arg = ''--remove-land'' then Inr (config\<lparr>REMOVE_LAND := True\<rparr>)
      else if arg = ''--remove-clouds'' then Inr (config\<lparr>REMOVE_CLOUDS := True\<rparr>)
      else if arg = ''--remove-all'' then
        Inr (config\<lparr>REMOVE_CLOUDS := True, REMOVE_LAND := True\<rparr>)
      else if arg = ''--visualize'' then Inr (config\<lparr>VISUALIZE_SORT := True\<rparr>)
      else if arg = ''--reject'' then Inr (config\<lparr>REJECT_TILES := True\<rparr>)
      else if arg = ''--manifest'' then Inr (config\<lparr>BUILD_MANIFEST := True\<rparr>)
      else if arg = ''--annotate'' then Inr (config\<lparr>ANNOTATE := True\<rparr>)
      else if startswith arg ''--grid-size='' then
        (case int_option_value arg of
           Inl e \<Rightarrow> Inl e | Inr n \<Rightarrow> Inr (config\<lparr>GRID_SIZE := n\<rparr>))
      else if startswith arg ''--land-threshhold='' then
        (case int_option_value arg of
           Inl e \<Rightarrow> Inl e | Inr n \<Rightarrow> Inr (config\<lparr>LAND_THRESHHOLD := n\<rparr>))
      else if startswith arg ''--land-sensitivity='' then
        (case int_option_value arg of
           Inl e \<Rightarrow> Inl e | Inr n \<Rightarrow> Inr (config\<lparr>LAND_SENSITIVITY := n\<rparr>))
      else if startswith arg ''--cloud-threshhold='' then
        (case int_option_value arg of
           Inl e \<Rightarrow> Inl e | Inr n \<Rightarrow> Inr (config\<lparr>CLOUD_THRESHHOLD := n\<rparr>))
      else if startswith arg ''--cloud-sensitivity='' then
        (case int_option_value arg of
           Inl e \<Rightarrow> Inl e | Inr n \<Rightarrow> Inr (config\<lparr>CLOUD_SENSITIVITY := n\<rparr>))
      else if startswith arg ''--label='' then
        (case option_value arg of
           Inl e \<Rightarrow> Inl e | Inr v \<Rightarrow> Inr (config\<lparr>LABEL := Some v\<rparr>))
      else if startswith arg ''--name='' then
        (case option_value arg of
           Inl e \<Rightarrow> Inl e | Inr v \<Rightarrow> Inr (config\<lparr>SCENE_NAME := Some v\<rparr>))
      else Inr (config\<lparr>SCENE_DIR := arg\<rparr>))"

fun parse_args :: "string list \<Rightarrow> 'v config \<Rightarrow> py_error + 'v config" where
  "parse_args [] config = Inr config"
| "parse_args (arg # argv) config =
     (case parse_arg arg config of
        Inl e \<Rightarrow> Inl e
      | Inr config' \<Rightarrow> parse_args argv config')"

text \<open>
  \<^verbatim>\<open>parse_options()\<close>, lines 63-144: the loop, then the scene name when none was
  given, then the paths of the inputs.
\<close>

definition parse_options ::
  "('s, 'v) collaborators \<Rightarrow> string list \<Rightarrow> 'v config \<Rightarrow> py_error + 'v config" where
  "parse_options files argv config =
     (case parse_args argv config of
        Inl e \<Rightarrow> Inl e
      | Inr c \<Rightarrow>
          let c1 = (if SCENE_NAME c = None
                    then c\<lparr>SCENE_NAME := Some (find_scene_name files c)\<rparr> else c);
              c2 = c1\<lparr>NEW_MASK := path_join (SCENE_DIR c1) [''B02.jp2'']\<rparr>;
              c3 = c2\<lparr>METADATA_SRC := path_join (SCENE_DIR c2) [''metadata.xml'']\<rparr>;
              c4 = c3\<lparr>JSON_SRC := path_join (SCENE_DIR c3) [''tileInfo.json'']\<rparr>
          in Inr (c4\<lparr>INPUT_FILE := NEW_MASK c4\<rparr>))"

section \<open>The orchestrator\<close>

text \<open>
  \<^verbatim>\<open>main()\<close>, lines 213-308, stage by stage. A stage takes the trace of the
  collaborator calls made so far and returns it extended.

  Line 248: the scene's dimensions.
\<close>

definition read_dimensions :: "('s, 'v) collaborators \<Rightarrow> 'v config \<Rightarrow> 'v config" where
  "read_dimensions ext config =
     (let (w, h) = get_dimensions ext (INPUT_FILE config)
      in config\<lparr>width := w, height := h\<rparr>)"

text \<open>Lines 256-262: the metadata and the channel paths.\<close>

definition scene_setup :: "('s, 'v) collaborators \<Rightarrow> 'v config \<Rightarrow> 'v config" where
  "scene_setup ext config =
     (let c = config\<lparr>METADATA :=
                  parse_metadata ext (SCENE_DIR config) (METADATA_SRC config)
                    (JSON_SRC config)\<rparr>
      in c\<lparr>RED_CHANNEL := path_join (SCENE_DIR c) [''B04.jp2''],
            GREEN_CHANNEL := path_join (SCENE_DIR c) [''B03.jp2''],
            BLUE_CHANNEL := path_join (SCENE_DIR c) [''B02.jp2''],
            INFRARED_CHANNEL := path_join (SCENE_DIR c) [''B03.jp2'']\<rparr>)"

text \<open>
  Lines 250-254. Python's
  \<^verbatim>\<open>or\<close> does not call \<^verbatim>\<open>scratch_exists\<close> when \<^verbatim>\<open>REBUILD\<close> is set; the
  call has no effect of its own, so the disjunction says the same.
\<close>

definition scratch_stage ::
  "('s, 'v) collaborators \<Rightarrow> 'v config \<Rightarrow> 'v event list \<Rightarrow> 'v event list" where
  "scratch_stage ext config tr =
     (if REBUILD config \<or> \<not> scratch_exists ext config then tr @ [BuildScratch] else tr)
     @ [BuildOutput]"

text \<open>Lines 264-278.\<close>

definition assemble_stage ::
  "'v config \<Rightarrow> 'v event list \<Rightarrow> 'v config \<times> 'v event list" where
  "assemble_stage config tr =
     (if ASSEMBLE_IMAGE config then
        (config\<lparr>RED_CHANNEL := path_join (SCRATCH_PATH config) [''red.png''],
                GREEN_CHANNEL := path_join (SCRATCH_PATH config) [''green.png''],
                BLUE_CHANNEL := path_join (SCRATCH_PATH config) [''blue.png'']\<rparr>,
         tr @ [ClampImage (RED_CHANNEL config) ''red'' False,
               ClampImage (GREEN_CHANNEL config) ''green'' False,
               ClampImage (BLUE_CHANNEL config) ''blue'' False,
               AssembleImage])
      else (config, tr))"

text \<open>Lines 280-287.\<close>

definition slice_stage :: "'v config \<Rightarrow> 'v event list \<Rightarrow> 'v event list" where
  "slice_stage config tr = (if SLICE_IMAGE config then tr @ [PrepareTiles] else tr)"

text \<open>
  The loop of lines 292-294 over \<^verbatim>\<open>retained_tiles\<close>: each tile is handed to
  \<^verbatim>\<open>accept_tile\<close>, then its record is built and appended to \<^verbatim>\<open>accepts\<close>. An
  exception from the record builder ends the run after the tile's \<^verbatim>\<open>accept_tile\<close>.
\<close>

fun accept_loop ::
  "('s, 'v) collaborators \<Rightarrow> 'v config \<Rightarrow> string list \<Rightarrow> 'v event list \<Rightarrow> 'v dict list \<Rightarrow>
   'v event list \<times> (py_error + 'v dict list)" where
  "accept_loop ext config [] tr accepts = (tr, Inr accepts)"
| "accept_loop ext config (filename # retained_tiles) tr accepts =
     (case build_dict_for_csv ext filename ''Accepted'' config of
        Inl e \<Rightarrow> (tr @ [AcceptTile filename], Inl e)
      | Inr tile_record \<Rightarrow>
          accept_loop ext config retained_tiles (tr @ [AcceptTile filename])
            (accepts @ [tile_record]))"

text \<open>Lines 289-294; \<^verbatim>\<open>accepts\<close> starts empty (line 245).\<close>

definition reject_stage ::
  "('s, 'v) collaborators \<Rightarrow> 'v config \<Rightarrow> 'v event list \<Rightarrow>
   'v event list \<times> (py_error + 'v dict list)" where
  "reject_stage ext config tr =
     (if REJECT_TILES config then
        accept_loop ext config
          (get_files_by_extension ext (path_join (SCRATCH_PATH config) [''scene'']) ''png'')
          tr []
      else (tr, Inr []))"

text \<open>
  Lines 296-306. \<^verbatim>\<open>"{0}_tiles".format(config.SCENE_NAME)\<close> prints \<^verbatim>\<open>None\<close> for
  a missing name.
\<close>

definition manifest_path :: "'v config \<Rightarrow> string" where
  "manifest_path config =
     path_join ''output''
       [(case SCENE_NAME config of None \<Rightarrow> ''None'' | Some n \<Rightarrow> n) @ ''_tiles'',
        ''manifest.csv'']"

definition finish_stage :: "'v config \<Rightarrow> 'v dict list \<Rightarrow> 'v event list \<Rightarrow> 'v event list" where
  "finish_stage config accepts tr =
     tr
     @ (if BUILD_MANIFEST config then [WriteManifest (manifest_path config) accepts] else [])
     @ (if ANNOTATE config then [LabelAll] else [])
     @ [MaybeCleanScratch]"

text \<open>
  The run after \<^verbatim>\<open>parse_options()\<close>: the trace of collaborator calls, and whether
  the run ended normally or with an exception.
\<close>

definition run_stages ::
  "('s, 'v) collaborators \<Rightarrow> 'v config \<Rightarrow> 'v event list \<times> (py_error + unit)" where
  "run_stages ext config =
     (let c0 = read_dimensions ext config;
          tr1 = scratch_stage ext c0 [];
          c1 = scene_setup ext c0;
          (c2, tr2) = assemble_stage c1 tr1;
          tr3 = slice_stage c2 tr2
      in case reject_stage ext c2 tr3 of
           (tr4, Inl e) \<Rightarrow> (tr4, Inl e)
         | (tr4, Inr accepts) \<Rightarrow> (finish_stage c2 accepts tr4, Inr ()))"

definition main ::
  "('s, 'v) collaborators \<Rightarrow> string list \<Rightarrow> 'v config \<Rightarrow> 'v event list \<times> (py_error + unit)" where
  "main ext argv config =
     (case parse_options ext argv config of
        Inl e \<Rightarrow> ([], Inl e)
      | Inr c \<Rightarrow> run_stages ext c)"

section \<open>Derived notions and sample inputs\<close>

text \<open>
  Follows the words of the specification, for comparison with \<open>index_text\<close>: the part
  of a file name between the first underscore and the next dot.
\<close>

definition segment_spec :: "string \<Rightarrow> string" where
  "segment_spec filename =
     takeWhile (\<lambda>x. x \<noteq> CHR ''.'') (tl (dropWhile (\<lambda>x. x \<noteq> CHR ''_'') filename))"

text \<open>Every rule answers true on the statistics; no rule raises on them.\<close>

definition all_rules_pass :: "'s rule list \<Rightarrow> 's \<Rightarrow> bool" where
  "all_rules_pass rules statistics = list_all (\<lambda>rule. rule statistics = Inr True) rules"

definition no_rule_raises :: "'s rule list \<Rightarrow> 's \<Rightarrow> bool" where
  "no_rule_raises rules statistics =
     list_all (\<lambda>rule. rule statistics = Inr True \<or> rule statistics = Inr False) rules"

text \<open>
  Follows the words of the specification: the identity of the first rule, in list order,
  whose predicate answers false, as its position in the list.
\<close>

fun first_failing :: "'s rule list \<Rightarrow> 's \<Rightarrow> nat option" where
  "first_failing [] statistics = None"
| "first_failing (rule # rules) statistics =
     (if rule statistics = Inr False then Some 0
      else map_option Suc (first_failing rules statistics))"

text \<open>
  Sample inputs for the examples: two rules over statistics \<open>(land, cloud)\<close>, a rule
  that raises, a configuration, and collaborators for a scene of 5490 by 5490 pixels
  with two tiles in the scratch directory.
\<close>

definition sample_land_rule :: "(int \<times> int) rule" where
  "sample_land_rule = (\<lambda>(land, cloud). Inr (land < 10))"

definition sample_cloud_rule :: "(int \<times> int) rule" where
  "sample_cloud_rule = (\<lambda>(land, cloud). Inr (cloud < 70))"

definition sample_broken_rule :: "(int \<times> int) rule" where
  "sample_broken_rule = (\<lambda>statistics. Inl (Raised ''TypeError''))"

definition sample_config :: "int config" where
  "sample_config =
     \<lparr>WITHTEMPDIR = False, REBUILD = False, ASSEMBLE_IMAGE = False, SLICE_IMAGE = False,
      GENERATE_MASK_TILES = False, REMOVE_LAND = False, REMOVE_CLOUDS = False,
      REJECT_TILES = False, BUILD_MANIFEST = False, VISUALIZE_SORT = False,
      ANNOTATE = False, GRID_SIZE = 1000, LAND_THRESHHOLD = 5, LAND_SENSITIVITY = 5,
      CLOUD_THRESHHOLD = 5, CLOUD_SENSITIVITY = 5, LABEL = None, SCENE_NAME = None,
      SCENE_DIR = [], NEW_MASK = [], METADATA_SRC = [], JSON_SRC = [], INPUT_FILE = [],
      SCRATCH_PATH = ''scratch'', width = 0, height = 0, METADATA = Map.empty,
      RED_CHANNEL = [], GREEN_CHANNEL = [], BLUE_CHANNEL = [], INFRARED_CHANNEL = []\<rparr>"

definition sample_collaborators :: "(int \<times> int, int) collaborators" where
  "sample_collaborators =
     \<lparr>get_image_statistics =
        (\<lambda>path. if path = ''scratch/land/tile_1.png'' then (50, 20) else (5, 20)),
      get_dimensions =
        (\<lambda>path. if path = ''input/foo/B02.jp2'' then (5490, 5490) else (1000, 1000)),
      compute_coordinate_metadata =
        (\<lambda>row column w h config. [''x'' \<mapsto> IntV (column * w), ''y'' \<mapsto> IntV (row * h)]),
      scratch_exists = (\<lambda>config. True),
      get_files_by_extension =
        (\<lambda>dir ext. if dir = ''scratch/scene'' \<and> ext = ''png''
                    then [''tile_0.png'', ''tile_7.png''] else []),
      parse_metadata = (\<lambda>dir xml json. [''scene'' \<mapsto> StrV dir]),
      find_scene_name = (\<lambda>config. ''foo'')\<rparr>"

text \<open>
  What a trace says: the files handed to \<^verbatim>\<open>accept_tile\<close>, in order, and the
  manifests handed to \<^verbatim>\<open>write_manifest\<close>, each with its path and rows.
\<close>

definition accepted_files :: "'v event list \<Rightarrow> string list" where
  "accepted_files tr = concat (map (\<lambda>e. case e of AcceptTile f \<Rightarrow> [f] | _ \<Rightarrow> []) tr)"

definition manifests_written :: "'v event list \<Rightarrow> (string \<times> 'v dict list) list" where
  "manifests_written tr =
     concat (map (\<lambda>e. case e of WriteManifest p rows \<Rightarrow> [(p, rows)] | _ \<Rightarrow> []) tr)"

text \<open>
  The configuration in force when the tiles are routed (line 289): the parsed options
  with the scene's dimensions, metadata and channel paths.
\<close>

definition stage_config :: "('s, 'v) collaborators \<Rightarrow> 'v config \<Rightarrow> 'v config" where
  "stage_config ext config =
     fst (assemble_stage (scene_setup ext (read_dimensions ext config)) [])"

text \<open>The keys of the identity fields of a manifest record.\<close>

definition identity_keys :: "string set" where
  "identity_keys =
     {''#filename1'', ''#filename2'', ''#reason'', ''#row'', ''#column'', ''#width'',
      ''#height''}"

text \<open>
  The trace of lines 250-287, before the tiles are routed: the scratch and output
  directories, the assembly and the slicing.
\<close>

definition setup_trace :: "('s, 'v) collaborators \<Rightarrow> 'v config \<Rightarrow> 'v event list" where
  "setup_trace ext c =
     slice_stage (stage_config ext c)
       (snd (assemble_stage (scene_setup ext (read_dimensions ext c))
          (scratch_stage ext (read_dimensions ext c) [])))"

text \<open>
  Follows the words of the claim on accepted tiles: the record of a listed file at a
  grid location, as \<open>main\<close> is said to build it. The identity fields, with the reason
  \<open>Accepted\<close>, the location and the tile's own dimensions, are overlaid by the
  coordinate block for that location and then by the scene metadata.
\<close>

definition accepted_record ::
  "('s, 'v) collaborators \<Rightarrow> 'v config \<Rightarrow> string \<Rightarrow> int \<times> int \<Rightarrow> 'v dict" where
  "accepted_record ext c filename location =
     (let dims = get_dimensions ext (path_join (SCRATCH_PATH c) [''scene'', filename])
      in [''#filename1'' \<mapsto> StrV (''after_'' @ filename),
          ''#filename2'' \<mapsto> StrV (''before_'' @ filename),
          ''#reason'' \<mapsto> StrV ''Accepted'',
          ''#row'' \<mapsto> IntV (fst location),
          ''#column'' \<mapsto> IntV (snd location),
          ''#width'' \<mapsto> IntV (fst dims),
          ''#height'' \<mapsto> IntV (snd dims)]
         ++ compute_coordinate_metadata ext (fst location) (snd location) (fst dims) (snd dims)
              (stage_config ext c)
         ++ parse_metadata ext (SCENE_DIR c) (METADATA_SRC c) (JSON_SRC c))"

text \<open>The \<open>#reason\<close> of every row of every manifest written.\<close>

definition reasons_written :: "'v event list \<Rightarrow> 'v cell option list list" where
  "reasons_written tr = map (\<lambda>(p, rows). map (\<lambda>d. d ''#reason'') rows) (manifests_written tr)"

text \<open>
  Variants of the sample collaborators: a scene directory with a stray file among the
  tiles, a run that finds no scratch directory, and scene metadata that has a
  \<open>#reason\<close> of its own.
\<close>

definition sample_stray_collaborators :: "(int \<times> int, int) collaborators" where
  "sample_stray_collaborators =
     sample_collaborators
       \<lparr>get_files_by_extension := (\<lambda>dir ext. [''tile_0.png'', ''bad.png'', ''tile_7.png''])\<rparr>"

definition sample_fresh_collaborators :: "(int \<times> int, int) collaborators" where
  "sample_fresh_collaborators = sample_collaborators\<lparr>scratch_exists := (\<lambda>config. False)\<rparr>"

definition sample_labelled_collaborators :: "(int \<times> int, int) collaborators" where
  "sample_labelled_collaborators =
     sample_collaborators\<lparr>parse_metadata := (\<lambda>dir xml json. [''#reason'' \<mapsto> StrV ''kept''])\<rparr>"

section \<open>Auxiliary lemmas\<close>

subsection \<open>Splitting and integer parsing\<close>

lemma split_str_nonempty: "split_str c s \<noteq> []"
  by (induction s) (auto split: list.splits)

lemma split_str_hd: "hd (split_str c s) = takeWhile (\<lambda>x. x \<noteq> c) s"
  by (induction s) (auto split: list.splits simp: split_str_nonempty)

lemma split_str_tl: "tl (split_str c s) = (if c \<in> set s then split_str c (tl (dropWhile (\<lambda>x. x \<noteq> c) s)) else [])"
  by (induction s) (auto split: list.splits simp: split_str_nonempty)

lemma split_str_index0: "py_index (split_str c s) 0 = Inr (takeWhile (\<lambda>x. x \<noteq> c) s)"
  using split_str_nonempty [of c s] split_str_hd [of c s]
  by (cases "split_str c s") (auto simp: py_index_def)

lemma py_index_1:
  "xs \<noteq> [] \<Longrightarrow> py_index xs (Suc 0) = (if tl xs = [] then Inl IndexError else Inr (hd (tl xs)))"
  by (cases xs; cases "tl xs") (auto simp: py_index_def)

lemma split_str_index1:
  "py_index (split_str c s) (Suc 0) =
     (if c \<in> set s then Inr (takeWhile (\<lambda>x. x \<noteq> c) (tl (dropWhile (\<lambda>x. x \<noteq> c) s)))
      else Inl IndexError)"
  by (simp add: py_index_1 split_str_nonempty split_str_tl split_str_hd)

lemma takeWhile_takeWhile_conj:
  "takeWhile P (takeWhile Q xs) = takeWhile (\<lambda>x. Q x \<and> P x) xs"
  by (induction xs) auto

lemma is_digit_not_space: "is_digit c \<Longrightarrow> \<not> is_space c"
  by (auto simp: is_digit_def is_space_def)

lemma is_digit_not_sign: "is_digit c \<Longrightarrow> c \<noteq> CHR ''-'' \<and> c \<noteq> CHR ''+''"
  by (auto simp: is_digit_def)

lemma strip_digits: "list_all is_digit ds \<Longrightarrow> strip ds = ds"
proof -
  assume a: "list_all is_digit ds"
  have 1: "dropWhile is_space ds = ds"
    using a by (cases ds) (auto simp: is_digit_not_space)
  have 2: "dropWhile is_space (rev ds) = rev ds"
    using a by (cases "rev ds") (auto simp: is_digit_not_space list_all_iff dest!: arg_cong [where f = set])
  show ?thesis by (simp add: strip_def 1 2)
qed

lemma py_int_digits:
  "ds \<noteq> [] \<Longrightarrow> list_all is_digit ds \<Longrightarrow> py_int ds = Inr (digits_value ds)"
  using is_digit_not_sign [of "hd ds"]
  by (cases ds) (auto simp: py_int_def strip_digits)

lemma digits_value_snoc: "digits_value (ds @ [c]) = 10 * digits_value ds + digit_value c"
  by (simp add: digits_value_def)

lemma digit_char_props:
  "d < 10 \<Longrightarrow> is_digit (digit_char d) \<and> digit_value (digit_char d) = int d"
  by (simp add: is_digit_def digit_value_def digit_char_def)

lemma py_str_nat_digits: "py_str_nat n \<noteq> [] \<and> list_all is_digit (py_str_nat n)"
proof (induction n rule: py_str_nat.induct)
  case (1 n)
  then show ?case
    using digit_char_props [of n] digit_char_props [of "n mod 10"]
    by (subst (1 2) py_str_nat.simps) (cases "n < 10"; simp)
qed

lemma digits_value_py_str_nat: "digits_value (py_str_nat n) = int n"
proof (induction n rule: py_str_nat.induct)
  case (1 n)
  show ?case
  proof (cases "n < 10")
    case True
    then show ?thesis
      using digit_char_props [of n]
      by (subst py_str_nat.simps) (simp add: digits_value_def)
  next
    case False
    then have "digits_value (py_str_nat n) = 10 * int (n div 10) + int (n mod 10)"
      using 1 digit_char_props [of "n mod 10"]
      by (subst py_str_nat.simps) (simp add: digits_value_snoc)
    then show ?thesis by (simp add: zdiv_int zmod_int)
  qed
qed

lemma py_int_py_str_nat: "py_int (py_str_nat n) = Inr (int n)"
  using py_int_digits [of "py_str_nat n"] py_str_nat_digits [of n]
  by (simp add: digits_value_py_str_nat)

lemma index_to_location_unfold:
  "index_to_location filename w g =
     (if g = 0 then Inl ZeroDivisionError
      else if CHR ''_'' \<notin> set filename then Inl IndexError
      else (case py_int (index_text filename) of
              Inl e \<Rightarrow> Inl e
            | Inr idx \<Rightarrow>
                if w div g + 1 = 0 then Inl ZeroDivisionError
                else Inr (idx div (w div g + 1), idx mod (w div g + 1))))"
  by (simp add: index_to_location_def py_floordiv_def py_mod_def split_str_index1
      split_str_index0 takeWhile_takeWhile_conj index_text_def Let_def split: sum.splits)

lemma index_text_segment_spec:
  "index_text filename = takeWhile (\<lambda>x. x \<noteq> CHR ''_'') (segment_spec filename)"
  by (simp add: index_text_def segment_spec_def takeWhile_takeWhile_conj conj_commute)

lemma is_digit_not_sep: "is_digit c \<Longrightarrow> c \<noteq> CHR ''_'' \<and> c \<noteq> CHR ''.''"
  by (auto simp: is_digit_def)

lemma index_text_tile:
  assumes "list_all is_digit ds"
  shows "index_text (''tile_'' @ ds @ ''.'' @ ext) = ds"
proof -
  have "\<forall>x\<in>set ds. x \<noteq> CHR ''_'' \<and> x \<noteq> CHR ''.''"
    using assms by (auto simp: list_all_iff dest: is_digit_not_sep)
  then have "takeWhile (\<lambda>x. x \<noteq> CHR ''_'' \<and> x \<noteq> CHR ''.'') (ds @ CHR ''.'' # ext) = ds"
    by simp
  then show ?thesis by (simp add: index_text_def)
qed

lemma index_to_location_tile:
  assumes "ds \<noteq> []" "list_all is_digit ds" "g \<noteq> 0" "w div g \<noteq> - 1"
  shows "index_to_location (''tile_'' @ ds @ ''.'' @ ext) w g =
           Inr (digits_value ds div (w div g + 1),
                digits_value ds mod (w div g + 1))"
proof -
  have p: "w div g + 1 \<noteq> 0" using assms(4) by arith
  have t: "index_text (''tile_'' @ ds @ ''.'' @ ext) = ds"
    using assms(2) by (rule index_text_tile)
  have i: "py_int ds = Inr (digits_value ds)"
    using assms(1,2) by (rule py_int_digits)
  show ?thesis
    unfolding index_to_location_unfold t i using p assms(3) by simp
qed

lemma py_int_error: "py_int s = Inl e \<Longrightarrow> e = ValueError"
  by (auto simp: py_int_def Let_def split: prod.splits if_splits)

subsection \<open>The rule loops\<close>

lemma rules_loop_shape:
  "rules_loop rules st f rejects =
     (if snd (rules_loop rules st f []) = Inr True then rejects @ [f] else rejects,
      snd (rules_loop rules st f []))"
  by (induction rules) (auto split: sum.splits)

lemma rules_loop_accepts:
  "snd (rules_loop rules st f rejects) = Inr False \<longleftrightarrow> all_rules_pass rules st"
  by (induction rules) (auto simp: all_rules_pass_def split: sum.splits)

lemma rules_loop_first_false:
  "list_all (\<lambda>p. p st = Inr True) pre \<Longrightarrow> r st = Inr False \<Longrightarrow>
   rules_loop (pre @ r # post) st f rejects = (rejects @ [f], Inr True)"
  by (induction pre) auto

lemma rules_loop_rejects_split:
  "snd (rules_loop rules st f rejects) = Inr True \<Longrightarrow>
   \<exists>pre r post. rules = pre @ r # post \<and> list_all (\<lambda>p. p st = Inr True) pre \<and> r st = Inr False"
proof (induction rules)
  case Nil
  then show ?case by simp
next
  case (Cons a rules)
  show ?case
  proof (cases "a st = Inr True")
    case True
    with Cons obtain pre r post where
      "rules = pre @ r # post" "list_all (\<lambda>p. p st = Inr True) pre" "r st = Inr False"
      by auto
    with True have "a # rules = (a # pre) @ r # post \<and> list_all (\<lambda>p. p st = Inr True) (a # pre)
        \<and> r st = Inr False" by simp
    then show ?thesis by blast
  next
    case False
    with Cons.prems have "a st = Inr False" by (auto split: sum.splits if_splits)
    then have "a # rules = [] @ a # rules \<and> list_all (\<lambda>p. p st = Inr True) [] \<and> a st = Inr False"
      by simp
    then show ?thesis by blast
  qed
qed

lemma rules_loop_no_raise:
  "no_rule_raises rules st \<Longrightarrow>
   snd (rules_loop rules st f rejects) = Inr (\<not> all_rules_pass rules st)"
  by (induction rules) (auto simp: all_rules_pass_def no_rule_raises_def split: sum.splits)

lemma candidates_loop_partition:
  "list_all (\<lambda>f. no_rule_raises rules (tile_statistics img config subdirectory f)) candidates \<Longrightarrow>
   candidates_loop img config subdirectory rules candidates rejects accum =
     (rejects @ filter (\<lambda>f. \<not> all_rules_pass rules (tile_statistics img config subdirectory f)) candidates,
      Inr (accum @ filter (\<lambda>f. all_rules_pass rules (tile_statistics img config subdirectory f)) candidates))"
proof (induction candidates arbitrary: rejects accum)
  case Nil
  then show ?case by simp
next
  case (Cons f candidates)
  let ?st = "tile_statistics img config subdirectory f"
  have nr: "no_rule_raises rules ?st" using Cons.prems by simp
  have step: "rules_loop rules ?st f rejects =
      (if \<not> all_rules_pass rules ?st then rejects @ [f] else rejects,
       Inr (\<not> all_rules_pass rules ?st))"
    using rules_loop_shape [of rules ?st f rejects] rules_loop_no_raise [OF nr, of f "[]"]
    by simp
  show ?case
    using Cons.prems Cons.IH by (simp add: step)
qed

lemma candidates_loop_frame:
  "candidates_loop img config subdirectory rules candidates rejects accum =
     (rejects @ fst (candidates_loop img config subdirectory rules candidates [] accum),
      snd (candidates_loop img config subdirectory rules candidates [] accum))"
proof (induction candidates arbitrary: rejects accum)
  case Nil
  then show ?case by simp
next
  case (Cons f candidates)
  let ?st = "tile_statistics img config subdirectory f"
  obtain v where v: "snd (rules_loop rules ?st f []) = v" by simp
  have a: "rules_loop rules ?st f rejects = (if v = Inr True then rejects @ [f] else rejects, v)"
    using rules_loop_shape [of rules ?st f rejects] v by simp
  have b: "rules_loop rules ?st f [] = (if v = Inr True then [f] else [], v)"
    using rules_loop_shape [of rules ?st f "[]"] v by simp
  show ?case
  proof (cases v)
    case (Inl e)
    then show ?thesis by (simp add: a b)
  next
    case (Inr d)
    show ?thesis
    proof (cases d)
      case True
      then show ?thesis
        using Inr Cons.IH [of "rejects @ [f]" accum] Cons.IH [of "[f]" accum]
        by (simp add: a b)
    next
      case False
      then show ?thesis
        using Inr Cons.IH [of rejects "accum @ [f]"]
        by (simp add: a b)
    qed
  qed
qed

subsection \<open>The record builder\<close>

lemma identity_fields_dom:
  "dom (identity_fields filename reason row column tw th :: 'v dict) = identity_keys"
  by (auto simp: identity_fields_def identity_keys_def)

lemma identity_fields_values:
  "(identity_fields filename reason row column tw th :: 'v dict) ''#filename1''
      = Some (StrV (''after_'' @ filename))"
  "(identity_fields filename reason row column tw th :: 'v dict) ''#filename2''
      = Some (StrV (''before_'' @ filename))"
  "(identity_fields filename reason row column tw th :: 'v dict) ''#reason'' = Some (StrV reason)"
  "(identity_fields filename reason row column tw th :: 'v dict) ''#row'' = Some (IntV row)"
  "(identity_fields filename reason row column tw th :: 'v dict) ''#column'' = Some (IntV column)"
  "(identity_fields filename reason row column tw th :: 'v dict) ''#width'' = Some (IntV tw)"
  "(identity_fields filename reason row column tw th :: 'v dict) ''#height'' = Some (IntV th)"
  by (simp_all add: identity_fields_def)

lemma build_dict_for_csv_ok:
  assumes "index_to_location filename (width config) (GRID_SIZE config) = Inr (row, column)"
      and "get_dimensions gis (path_join (SCRATCH_PATH config) [''scene'', filename]) = (tw, th)"
  shows "build_dict_for_csv gis filename reason config =
           Inr (identity_fields filename reason row column tw th
                ++ compute_coordinate_metadata gis row column tw th config
                ++ METADATA config)"
  using assms by (simp add: build_dict_for_csv_def)

lemma build_dict_for_csv_error:
  "index_to_location filename (width config) (GRID_SIZE config) = Inl e \<Longrightarrow>
   build_dict_for_csv gis filename reason config = Inl e"
  by (simp add: build_dict_for_csv_def split: prod.splits)

lemma build_dict_for_csv_cases:
  "build_dict_for_csv gis filename reason config = Inr d \<Longrightarrow>
   \<exists>row column tw th.
     index_to_location filename (width config) (GRID_SIZE config) = Inr (row, column)
     \<and> d = identity_fields filename reason row column tw th
            ++ compute_coordinate_metadata gis row column tw th config
            ++ METADATA config"
  by (auto simp: build_dict_for_csv_def split: prod.splits sum.splits)

lemma map_add_lookup3:
  "(a ++ b ++ c) k = (case c k of Some v \<Rightarrow> Some v
                      | None \<Rightarrow> (case b k of Some v \<Rightarrow> Some v | None \<Rightarrow> a k))"
  by (simp add: map_add_def split: option.splits)

subsection \<open>The sample scene\<close>

lemma sample_location:
  "index_to_location ''tile_7.png'' 5490 1000 = Inr (1, 1)"
  "index_to_location ''tile_0.png'' 5490 1000 = Inr (0, 0)"
  by (simp_all add: index_to_location_def py_floordiv_def py_mod_def py_index_def py_int_def
      strip_def is_space_def is_digit_def digits_value_def digit_value_def)

lemma sample_scene_path:
  "path_join ''scratch'' [''scene'', ''tile_7.png''] = ''scratch/scene/tile_7.png''"
  "path_join ''scratch'' [''scene'', ''tile_0.png''] = ''scratch/scene/tile_0.png''"
  "path_join ''scratch'' [''scene''] = ''scratch/scene''"
  by (simp_all add: path_join_def join_step_def startswith_def endswith_def)

lemma manifest_path_stage_config: "manifest_path (stage_config ext c) = manifest_path c"
  by (simp add: manifest_path_def stage_config_def assemble_stage_def scene_setup_def
      read_dimensions_def Let_def split: prod.splits)

lemma sample_input_paths:
  "path_join ''input/foo'' [''B02.jp2''] = ''input/foo/B02.jp2''"
  "path_join ''input/foo'' [''metadata.xml''] = ''input/foo/metadata.xml''"
  "path_join ''input/foo'' [''tileInfo.json''] = ''input/foo/tileInfo.json''"
  "path_join ''output'' [''foo_tiles'', ''manifest.csv''] = ''output/foo_tiles/manifest.csv''"
  by (simp_all add: path_join_def join_step_def startswith_def endswith_def)

lemma sample_parse_reject_manifest:
  "parse_options sample_collaborators
     [''simple.py'', ''--reject'', ''--manifest'', ''input/foo''] sample_config =
   Inr (sample_config\<lparr>REJECT_TILES := True, BUILD_MANIFEST := True,
          SCENE_NAME := Some ''foo'', SCENE_DIR := ''input/foo'',
          NEW_MASK := ''input/foo/B02.jp2'', METADATA_SRC := ''input/foo/metadata.xml'',
          JSON_SRC := ''input/foo/tileInfo.json'', INPUT_FILE := ''input/foo/B02.jp2''\<rparr>)"
  by (simp add: parse_options_def parse_arg_def startswith_def sample_input_paths
      sample_config_def sample_collaborators_def Let_def)

lemma sample_parse_generate_tiles:
  "parse_options sample_collaborators
     [''simple.py'', ''--generate-tiles'', ''input/foo''] sample_config =
   Inr (sample_config\<lparr>SLICE_IMAGE := True,
          SCENE_NAME := Some ''foo'', SCENE_DIR := ''input/foo'',
          NEW_MASK := ''input/foo/B02.jp2'', METADATA_SRC := ''input/foo/metadata.xml'',
          JSON_SRC := ''input/foo/tileInfo.json'', INPUT_FILE := ''input/foo/B02.jp2''\<rparr>)"
  by (simp add: parse_options_def parse_arg_def startswith_def sample_input_paths
      sample_config_def sample_collaborators_def Let_def)

subsection \<open>The stages of a run\<close>

lemma assemble_stage_fst: "fst (assemble_stage c tr) = fst (assemble_stage c [])"
  by (simp add: assemble_stage_def)

lemma stage_config_fields:
  "REJECT_TILES (stage_config ext c) = REJECT_TILES c"
  "BUILD_MANIFEST (stage_config ext c) = BUILD_MANIFEST c"
  "ANNOTATE (stage_config ext c) = ANNOTATE c"
  "SLICE_IMAGE (stage_config ext c) = SLICE_IMAGE c"
  "SCRATCH_PATH (stage_config ext c) = SCRATCH_PATH c"
  "GRID_SIZE (stage_config ext c) = GRID_SIZE c"
  "width (stage_config ext c) = fst (get_dimensions ext (INPUT_FILE c))"
  by (simp_all add: stage_config_def assemble_stage_def scene_setup_def read_dimensions_def
      Let_def split: prod.splits)

lemma read_dimensions_fields:
  "REBUILD (read_dimensions ext c) = REBUILD c"
  by (simp add: read_dimensions_def split: prod.splits)

lemma run_stages_unfold:
  "run_stages ext c =
     (case reject_stage ext (stage_config ext c) (setup_trace ext c) of
        (tr, Inl e) \<Rightarrow> (tr, Inl e)
      | (tr, Inr accepts) \<Rightarrow> (finish_stage (stage_config ext c) accepts tr, Inr ()))"
proof -
  obtain c2 tr2 where a: "assemble_stage (scene_setup ext (read_dimensions ext c))
          (scratch_stage ext (read_dimensions ext c) []) = (c2, tr2)"
    by (cases "assemble_stage (scene_setup ext (read_dimensions ext c))
          (scratch_stage ext (read_dimensions ext c) [])")
  have c2: "c2 = stage_config ext c"
    using a assemble_stage_fst [of "scene_setup ext (read_dimensions ext c)"
        "scratch_stage ext (read_dimensions ext c) []"]
    by (simp add: stage_config_def)
  show ?thesis
    using a c2 by (simp add: run_stages_def setup_trace_def Let_def)
qed

lemma accepted_files_append:
  "accepted_files (tr @ tr') = accepted_files tr @ accepted_files tr'"
  by (simp add: accepted_files_def)

lemma accepted_files_accepts: "accepted_files (map AcceptTile tiles) = tiles"
  by (induction tiles) (simp_all add: accepted_files_def)

lemma manifests_written_append:
  "manifests_written (tr @ tr') = manifests_written tr @ manifests_written tr'"
  by (simp add: manifests_written_def)

lemma manifests_written_accepts: "manifests_written (map AcceptTile tiles) = []"
  by (induction tiles) (simp_all add: manifests_written_def)

lemma setup_trace_quiet:
  "accepted_files (setup_trace ext c) = [] \<and> manifests_written (setup_trace ext c) = []"
  by (simp add: setup_trace_def slice_stage_def assemble_stage_def scratch_stage_def
      accepted_files_def manifests_written_def)

lemma setup_trace_counts:
  "count_list (setup_trace ext c) BuildScratch =
     (if REBUILD c \<or> \<not> scratch_exists ext (read_dimensions ext c) then 1 else 0)"
  "count_list (setup_trace ext c) PrepareTiles = (if SLICE_IMAGE c then 1 else 0)"
  by (simp_all add: setup_trace_def slice_stage_def assemble_stage_def scratch_stage_def
      stage_config_fields read_dimensions_fields)

lemma accept_loop_ok:
  "map Inr records = map (\<lambda>f. build_dict_for_csv ext f ''Accepted'' c) tiles \<Longrightarrow>
   accept_loop ext c tiles tr acc = (tr @ map AcceptTile tiles, Inr (acc @ records))"
proof (induction tiles arbitrary: tr acc records)
  case Nil
  then show ?case by simp
next
  case (Cons f tiles)
  then obtain r rs where r: "records = r # rs" by (cases records) auto
  with Cons.prems have b: "build_dict_for_csv ext f ''Accepted'' c = Inr r"
    and rest: "map Inr rs = map (\<lambda>f. build_dict_for_csv ext f ''Accepted'' c) tiles"
    by auto
  show ?case
    using Cons.IH [OF rest, of "tr @ [AcceptTile f]" "acc @ [r]"] by (simp add: b r)
qed

lemma accept_loop_count:
  "(\<And>f. e \<noteq> AcceptTile f) \<Longrightarrow>
   count_list (fst (accept_loop ext c tiles tr acc)) e = count_list tr e"
  by (induction tiles arbitrary: tr acc) (auto split: sum.splits)

lemma records_exist:
  "list_all (\<lambda>f. \<exists>d. build f = Inr d) tiles \<Longrightarrow>
   \<exists>records. map Inr records = map build tiles"
proof (induction tiles)
  case Nil
  then show ?case by simp
next
  case (Cons f tiles)
  then obtain d rs where "build f = Inr d" "map Inr rs = map build tiles" by auto
  then have "map Inr (d # rs) = map build (f # tiles)" by simp
  then show ?case by blast
qed

lemma setup_trace_events:
  "setup_trace ext c =
     (if REBUILD c \<or> \<not> scratch_exists ext (read_dimensions ext c) then [BuildScratch] else [])
     @ [BuildOutput]
     @ (if ASSEMBLE_IMAGE c
        then [ClampImage (path_join (SCENE_DIR c) [''B04.jp2'']) ''red'' False,
              ClampImage (path_join (SCENE_DIR c) [''B03.jp2'']) ''green'' False,
              ClampImage (path_join (SCENE_DIR c) [''B02.jp2'']) ''blue'' False,
              AssembleImage]
        else [])
     @ (if SLICE_IMAGE c then [PrepareTiles] else [])"
  by (simp add: setup_trace_def slice_stage_def assemble_stage_def scratch_stage_def
      stage_config_fields scene_setup_def read_dimensions_def Let_def split: prod.splits)

lemma run_stages_no_reject:
  "\<not> REJECT_TILES c \<Longrightarrow>
   run_stages ext c = (finish_stage (stage_config ext c) [] (setup_trace ext c), Inr ())"
  by (simp add: run_stages_unfold reject_stage_def stage_config_fields)

subsection \<open>Signed indices and records of well-named tiles\<close>

lemma strip_minus_digits:
  assumes "ds \<noteq> []" "list_all is_digit ds"
  shows "strip (CHR ''-'' # ds) = CHR ''-'' # ds"
proof -
  have 1: "dropWhile is_space (CHR ''-'' # ds) = CHR ''-'' # ds"
    by (simp add: is_space_def)
  obtain y ys where r: "rev ds = y # ys" using assms(1) by (cases "rev ds") auto
  then have "y \<in> set ds" by (metis list.set_intros(1) set_rev)
  then have "\<not> is_space y" using assms(2) by (auto simp: list_all_iff is_digit_not_space)
  then have 2: "dropWhile is_space (rev (CHR ''-'' # ds)) = rev (CHR ''-'' # ds)"
    using r by simp
  show ?thesis
    unfolding strip_def 1 2 by simp
qed

lemma py_int_minus_digits:
  "ds \<noteq> [] \<Longrightarrow> list_all is_digit ds \<Longrightarrow> py_int (CHR ''-'' # ds) = Inr (- digits_value ds)"
  by (simp add: py_int_def strip_minus_digits)

lemma index_to_location_named:
  assumes "\<forall>x\<in>set t. x \<noteq> CHR ''_'' \<and> x \<noteq> CHR ''.''" "py_int t = Inr idx"
    "g \<noteq> 0" "w div g \<noteq> - 1"
  shows "index_to_location (''tile_'' @ t @ ''.'' @ ext) w g =
           Inr (idx div (w div g + 1), idx mod (w div g + 1))"
proof -
  have p: "w div g + 1 \<noteq> 0" using assms(4) by arith
  have "takeWhile (\<lambda>x. x \<noteq> CHR ''_'' \<and> x \<noteq> CHR ''.'') (t @ CHR ''.'' # ext) = t"
    using assms(1) by simp
  then have t: "index_text (''tile_'' @ t @ ''.'' @ ext) = t"
    by (simp add: index_text_def)
  show ?thesis
    unfolding index_to_location_unfold t assms(2) using p assms(3) by simp
qed

lemma index_to_location_minus_tile:
  assumes "ds \<noteq> []" "list_all is_digit ds" "g \<noteq> 0" "w div g \<noteq> - 1"
  shows "index_to_location (''tile_'' @ (CHR ''-'' # ds) @ ''.'' @ ext) w g =
           Inr ((- digits_value ds) div (w div g + 1), (- digits_value ds) mod (w div g + 1))"
proof -
  have "\<forall>x\<in>set (CHR ''-'' # ds). x \<noteq> CHR ''_'' \<and> x \<noteq> CHR ''.''"
    using assms(2) by (auto simp: list_all_iff dest: is_digit_not_sep)
  then show ?thesis
    using py_int_minus_digits [OF assms(1,2)] assms(3,4)
    by (rule index_to_location_named)
qed

lemma build_dict_for_csv_tile:
  assumes "ds \<noteq> []" "list_all is_digit ds" "GRID_SIZE config \<noteq> 0"
    "width config div GRID_SIZE config \<noteq> - 1"
  shows "\<exists>d. build_dict_for_csv gis (''tile_'' @ ds @ ''.'' @ ext) reason config = Inr d"
  using index_to_location_tile [OF assms, of ext]
  by (simp add: build_dict_for_csv_def split: prod.splits)

subsection \<open>Non-negative widths and terminated index texts\<close>

lemma nonneg_width_tiles_per_row:
  assumes "0 < (g::int)" "0 \<le> (w::int)"
  shows "w div g \<noteq> - 1"
proof -
  have "0 \<le> w div g" using assms by (simp add: pos_imp_zdiv_nonneg_iff)
  then show ?thesis by arith
qed

lemma index_to_location_sample:
  "index_to_location ''tile_7.png'' 5490 1000 = Inr (1, 1)"
  by (simp add: index_to_location_def py_floordiv_def py_mod_def py_index_def py_int_def
      strip_def is_space_def is_digit_def digits_value_def digit_value_def)

lemma index_to_location_terminated:
  assumes "ds \<noteq> []" "list_all is_digit ds" "c = CHR ''_'' \<or> c = CHR ''.''"
    "g \<noteq> 0" "w div g \<noteq> - 1"
  shows "index_to_location (''tile_'' @ ds @ c # rest) w g =
           Inr (digits_value ds div (w div g + 1), digits_value ds mod (w div g + 1))"
proof -
  have p: "w div g + 1 \<noteq> 0" using assms(5) by arith
  have "\<forall>x\<in>set ds. x \<noteq> CHR ''_'' \<and> x \<noteq> CHR ''.''"
    using assms(2) by (auto simp: list_all_iff dest: is_digit_not_sep)
  then have "takeWhile (\<lambda>x. x \<noteq> CHR ''_'' \<and> x \<noteq> CHR ''.'') (ds @ c # rest) = ds"
    using assms(3) by auto
  then have t: "index_text (''tile_'' @ ds @ c # rest) = ds"
    by (simp add: index_text_def)
  have i: "py_int ds = Inr (digits_value ds)"
    using assms(1,2) by (rule py_int_digits)
  show ?thesis
    unfolding index_to_location_unfold t i using p assms(4) by simp
qed

lemma index_to_location_by_text:
  "index_to_location f w g =
     (if g = 0 then Inl ZeroDivisionError
      else if CHR ''_'' \<notin> set f then Inl IndexError
      else (case py_int (index_text f) of
              Inl e \<Rightarrow> Inl ValueError
            | Inr idx \<Rightarrow>
                if w div g = - 1 then Inl ZeroDivisionError
                else Inr (idx div (w div g + 1), idx mod (w div g + 1))))"
proof -
  have "w div g + 1 = 0 \<longleftrightarrow> w div g = - 1" by arith
  then show ?thesis
    using py_int_error [of "index_text f"]
    by (auto simp: index_to_location_unfold split: sum.splits)
qed

subsection \<open>Runs that accept every tile, and runs that stop\<close>

lemma stage_config_metadata:
  "METADATA (stage_config ext c) = parse_metadata ext (SCENE_DIR c) (METADATA_SRC c) (JSON_SRC c)"
  by (simp add: stage_config_def assemble_stage_def scene_setup_def read_dimensions_def
      Let_def split: prod.splits)

lemma build_accepted_record:
  assumes "index_to_location f (fst (get_dimensions ext (INPUT_FILE c))) (GRID_SIZE c) = Inr rc"
  shows "build_dict_for_csv ext f ''Accepted'' (stage_config ext c)
           = Inr (accepted_record ext c f rc)"
proof -
  obtain tw th where d: "get_dimensions ext (path_join (SCRATCH_PATH c) [''scene'', f]) = (tw, th)"
    by (cases "get_dimensions ext (path_join (SCRATCH_PATH c) [''scene'', f])")
  obtain row column where rc: "rc = (row, column)" by (cases rc)
  have l: "index_to_location f (width (stage_config ext c)) (GRID_SIZE (stage_config ext c))
      = Inr (row, column)"
    using assms rc by (simp add: stage_config_fields)
  have d': "get_dimensions ext (path_join (SCRATCH_PATH (stage_config ext c)) [''scene'', f])
      = (tw, th)"
    using d by (simp add: stage_config_fields)
  show ?thesis
    unfolding build_dict_for_csv_ok [OF l d']
    by (simp add: accepted_record_def d rc identity_fields_def stage_config_metadata)
qed

lemma build_fails:
  assumes "index_to_location f (fst (get_dimensions ext (INPUT_FILE c))) (GRID_SIZE c) = Inl e"
  shows "build_dict_for_csv ext f ''Accepted'' (stage_config ext c) = Inl e"
  using assms by (intro build_dict_for_csv_error) (simp add: stage_config_fields)

lemma accept_loop_fail:
  "map Inr records = map (\<lambda>f. build_dict_for_csv ext f ''Accepted'' c) pre \<Longrightarrow>
   build_dict_for_csv ext bad ''Accepted'' c = Inl e \<Longrightarrow>
   accept_loop ext c (pre @ bad # post) tr acc
     = (tr @ map AcceptTile pre @ [AcceptTile bad], Inl e)"
proof (induction pre arbitrary: tr acc records)
  case Nil
  then show ?case by simp
next
  case (Cons f pre)
  then obtain r rs where r: "records = r # rs" by (cases records) auto
  with Cons.prems have b: "build_dict_for_csv ext f ''Accepted'' c = Inr r"
    and rest: "map Inr rs = map (\<lambda>f. build_dict_for_csv ext f ''Accepted'' c) pre"
    by auto
  show ?case
    using Cons.IH [OF rest Cons.prems(2), of "tr @ [AcceptTile f]" "acc @ [r]"]
    by (simp add: b)
qed

lemma accepted_records_built:
  assumes "\<forall>f\<in>set tiles.
             index_to_location f (fst (get_dimensions ext (INPUT_FILE c))) (GRID_SIZE c)
               = Inr (loc f)"
  shows "map Inr (map (\<lambda>f. accepted_record ext c f (loc f)) tiles)
           = map (\<lambda>f. build_dict_for_csv ext f ''Accepted'' (stage_config ext c)) tiles"
  using assms by (induction tiles) (simp_all add: build_accepted_record)

lemma accepted_record_reason:
  "accepted_record ext c f rc ''#reason'' =
     (case parse_metadata ext (SCENE_DIR c) (METADATA_SRC c) (JSON_SRC c) ''#reason'' of
        Some v \<Rightarrow> Some v
      | None \<Rightarrow>
          (case compute_coordinate_metadata ext (fst rc) (snd rc)
                  (fst (get_dimensions ext (path_join (SCRATCH_PATH c) [''scene'', f])))
                  (snd (get_dimensions ext (path_join (SCRATCH_PATH c) [''scene'', f])))
                  (stage_config ext c) ''#reason'' of
             Some v \<Rightarrow> Some v
           | None \<Rightarrow> Some (StrV ''Accepted'')))"
  by (simp add: accepted_record_def Let_def map_add_def split: option.splits)

lemma main_accepts_all:
  fixes ext :: "('s, 'v) collaborators"
  assumes "parse_options ext argv config0 = Inr c"
      and "REJECT_TILES c"
      and "tiles = get_files_by_extension ext (path_join (SCRATCH_PATH c) [''scene'']) ''png''"
      and a: "\<forall>f\<in>set tiles.
             index_to_location f (fst (get_dimensions ext (INPUT_FILE c))) (GRID_SIZE c)
               = Inr (loc f)"
  shows "snd (main ext argv config0) = Inr ()
          \<and> accepted_files (fst (main ext argv config0)) = tiles
          \<and> manifests_written (fst (main ext argv config0)) =
              (if BUILD_MANIFEST c
               then [(manifest_path c, map (\<lambda>f. accepted_record ext c f (loc f)) tiles)]
               else [])"
proof -
  let ?c = "stage_config ext c"
  have q: "accepted_files (setup_trace ext c) = []" "manifests_written (setup_trace ext c) = []"
    using setup_trace_quiet [of ext c] by simp_all
  let ?rows = "map (\<lambda>f. accepted_record ext c f (loc f)) tiles"
  have acc: "map Inr ?rows = map (\<lambda>f. build_dict_for_csv ext f ''Accepted'' ?c) tiles"
    using a by (rule accepted_records_built)
  have rs: "reject_stage ext ?c (setup_trace ext c) =
      (setup_trace ext c @ map AcceptTile tiles, Inr ?rows)"
    using accept_loop_ok [OF acc, of "setup_trace ext c" "[]"] assms(2,3)
    by (simp add: reject_stage_def stage_config_fields)
  have m: "main ext argv config0 =
      (finish_stage ?c ?rows (setup_trace ext c @ map AcceptTile tiles), Inr ())"
    by (simp add: main_def assms(1) run_stages_unfold rs)
  have af: "accepted_files (fst (main ext argv config0)) = tiles"
    by (simp add: m finish_stage_def accepted_files_append accepted_files_accepts q)
      (simp add: accepted_files_def)
  have mw: "manifests_written (fst (main ext argv config0)) =
      (if BUILD_MANIFEST c then [(manifest_path c, ?rows)] else [])"
    by (simp add: m finish_stage_def manifests_written_append manifests_written_accepts q
        stage_config_fields manifest_path_stage_config)
      (simp add: manifests_written_def)
  show ?thesis
    using m af mw by simp
qed

lemma main_stops_at_failure:
  fixes ext :: "('s, 'v) collaborators"
  assumes "parse_options ext argv config0 = Inr c"
      and "REJECT_TILES c"
      and "get_files_by_extension ext (path_join (SCRATCH_PATH c) [''scene'']) ''png''
             = pre @ bad # post"
      and a: "\<forall>f\<in>set pre.
             index_to_location f (fst (get_dimensions ext (INPUT_FILE c))) (GRID_SIZE c)
               = Inr (loc f)"
      and b: "index_to_location bad (fst (get_dimensions ext (INPUT_FILE c))) (GRID_SIZE c)
               = Inl e"
  shows "snd (main ext argv config0) = Inl e
          \<and> accepted_files (fst (main ext argv config0)) = pre @ [bad]
          \<and> manifests_written (fst (main ext argv config0)) = []"
proof -
  let ?c = "stage_config ext c"
  have q: "accepted_files (setup_trace ext c) = []" "manifests_written (setup_trace ext c) = []"
    using setup_trace_quiet [of ext c] by simp_all
  let ?rows = "map (\<lambda>f. accepted_record ext c f (loc f)) pre"
  have acc: "map Inr ?rows = map (\<lambda>f. build_dict_for_csv ext f ''Accepted'' ?c) pre"
    using a by (rule accepted_records_built)
  have bf: "build_dict_for_csv ext bad ''Accepted'' ?c = Inl e"
    using b by (rule build_fails)
  have rs: "reject_stage ext ?c (setup_trace ext c) =
      (setup_trace ext c @ map AcceptTile pre @ [AcceptTile bad], Inl e)"
    using accept_loop_fail [OF acc bf, of post "setup_trace ext c" "[]"] assms(2,3)
    by (simp add: reject_stage_def stage_config_fields)
  have m: "main ext argv config0 =
      (setup_trace ext c @ map AcceptTile pre @ [AcceptTile bad], Inl e)"
    by (simp add: main_def assms(1) run_stages_unfold rs)
  have af: "accepted_files (fst (main ext argv config0)) = pre @ [bad]"
    by (simp add: m accepted_files_append accepted_files_accepts q)
      (simp add: accepted_files_def)
  have mw: "manifests_written (fst (main ext argv config0)) = []"
    by (simp add: m manifests_written_append manifests_written_accepts q)
      (simp add: manifests_written_def)
  show ?thesis
    using m af mw by simp
qed

lemma main_event_count:
  fixes ext :: "('s, 'v) collaborators" and e :: "'v event"
  assumes "parse_options ext argv config0 = Inr c"
      and "\<And>f. e \<noteq> AcceptTile f" "\<And>p rows. e \<noteq> WriteManifest p rows"
      and "e \<noteq> LabelAll" "e \<noteq> MaybeCleanScratch"
  shows "count_list (fst (main ext argv config0)) e = count_list (setup_trace ext c) e"
proof -
  let ?c = "stage_config ext c"
  have r: "count_list (fst (reject_stage ext ?c (setup_trace ext c))) e
      = count_list (setup_trace ext c) e"
    using accept_loop_count [of e ext ?c _ "setup_trace ext c" "[]"] assms(2)
    by (simp add: reject_stage_def)
  show ?thesis
    using r assms(2-5)
    by (cases "reject_stage ext ?c (setup_trace ext c)")
      (auto simp: main_def assms(1) run_stages_unfold finish_stage_def split: sum.splits)
qed

lemma parse_options_scene_name_only:
  assumes "find_scene_name ext = find_scene_name ext'"
  shows "parse_options ext argv config = parse_options ext' argv config"
  unfolding parse_options_def assms ..

lemma sample_parse_grid_zero:
  "parse_options sample_collaborators
     [''simple.py'', ''--reject'', ''--manifest'', ''--grid-size=0'', ''input/foo'']
     sample_config =
   Inr (sample_config\<lparr>REJECT_TILES := True, BUILD_MANIFEST := True, GRID_SIZE := 0,
          SCENE_NAME := Some ''foo'', SCENE_DIR := ''input/foo'',
          NEW_MASK := ''input/foo/B02.jp2'', METADATA_SRC := ''input/foo/metadata.xml'',
          JSON_SRC := ''input/foo/tileInfo.json'', INPUT_FILE := ''input/foo/B02.jp2''\<rparr>)"
proof -
  have v: "int_option_value ''--grid-size=0'' = Inr 0"
    by (simp add: int_option_value_def option_value_def py_index_def py_int_def strip_def
        is_space_def is_digit_def digits_value_def digit_value_def)
  show ?thesis
    by (simp add: parse_options_def parse_arg_def startswith_def sample_input_paths v
        sample_config_def sample_collaborators_def Let_def)
qed

lemma sample_variants_scene_name:
  "find_scene_name sample_stray_collaborators = find_scene_name sample_collaborators"
  "find_scene_name sample_fresh_collaborators = find_scene_name sample_collaborators"
  "find_scene_name sample_labelled_collaborators = find_scene_name sample_collaborators"
  by (simp_all add: sample_stray_collaborators_def sample_fresh_collaborators_def
      sample_labelled_collaborators_def)

lemma sample_zero_location:
  "index_to_location ''tile_0.png'' 5490 0 = Inl ZeroDivisionError"
  "index_to_location ''bad.png'' 5490 1000 = Inl IndexError"
  by (simp_all add: index_to_location_unfold)

section \<open>Grid addressing: the claims\<close>

text \<open>
  Claim C1. For every tile index \<open>idx \<ge> 0\<close>, every width (a pixel count, so
  \<open>width \<ge> 0\<close>) and every \<open>grid_size > 0\<close>, \<open>index_to_location\<close> on the
  file name \<open>tile_<idx>.<ext>\<close> returns \<open>row = idx // tiles_per_row\<close> and
  \<open>column = idx % tiles_per_row\<close> where \<open>tiles_per_row = width // grid_size + 1\<close>,
  and \<open>row * tiles_per_row + column = idx\<close>. With width 5490 and grid size 1000,
  \<open>tiles_per_row\<close> is 6 and index 7 is at row 1, column 1. The result is a function
  of the arguments, which is determinism.
\<close>

theorem grid_addressing:
  assumes "0 < g" and "0 \<le> w"
  shows "(let tiles_per_row = w div g + 1;
              row = int idx div tiles_per_row;
              column = int idx mod tiles_per_row
          in index_to_location (''tile_'' @ py_str_nat idx @ ''.'' @ ext) w g
               = Inr (row, column)
             \<and> row * tiles_per_row + column = int idx)
         \<and> (5490 :: int) div 1000 + 1 = 6
         \<and> index_to_location ''tile_7.png'' 5490 1000 = Inr (1, 1)"
proof -
  have g0: "g \<noteq> 0" using assms(1) by simp
  have p: "w div g \<noteq> - 1" using assms by (rule nonneg_width_tiles_per_row)
  have loc: "index_to_location (''tile_'' @ py_str_nat idx @ ''.'' @ ext) w g =
      Inr (int idx div (w div g + 1), int idx mod (w div g + 1))"
    using index_to_location_tile [OF _ _ g0 p, of "py_str_nat idx" ext]
      py_str_nat_digits [of idx]
    by (simp add: digits_value_py_str_nat)
  show ?thesis
    using loc index_to_location_sample by (simp add: Let_def)
qed

text \<open>The theorem at index 13, width 5490, grid size 1000: row 2, column 1.\<close>

theorem grid_addressing_example:
  "index_to_location (''tile_'' @ py_str_nat 13 @ ''.'' @ ''png'') 5490 1000 = Inr (2, 1)
   \<and> (2 :: int) * 6 + 1 = 13"
  using grid_addressing [of 1000 5490 13 "''png''"] by (simp add: Let_def)

text \<open>
  Claim C7, as amended. A grid size of zero makes \<open>index_to_location\<close> raise Python's
  ZeroDivisionError, whatever the file name and the width. A negative grid size is
  not checked: for a file name with an underscore whose index text \<^verbatim>\<open>int()\<close> reads as
  \<open>idx\<close>, the call returns the floor-division row and column, and raises
  ZeroDivisionError only when \<open>width // grid_size = -1\<close>.
\<close>

theorem grid_size_not_validated:
  "index_to_location filename w 0 = Inl ZeroDivisionError
   \<and> (g < 0 \<longrightarrow> CHR ''_'' \<in> set filename \<longrightarrow> py_int (index_text filename) = Inr idx \<longrightarrow>
        index_to_location filename w g =
          (if w div g = - 1 then Inl ZeroDivisionError
           else Inr (idx div (w div g + 1), idx mod (w div g + 1))))"
proof -
  have "w div g + 1 = 0 \<longleftrightarrow> w div g = - 1" by arith
  then show ?thesis
    by (simp add: index_to_location_unfold)
qed

text \<open>The theorem at grid sizes 0 and \<open>-1000\<close>, for widths 5490 and 500.\<close>

theorem grid_size_not_validated_example:
  "index_to_location ''tile_7.png'' 5490 0 = Inl ZeroDivisionError
   \<and> index_to_location ''tile_7.png'' 5490 (- 1000) = Inr (- 2, - 3)
   \<and> index_to_location ''tile_7.png'' 500 (- 1000) = Inl ZeroDivisionError"
proof -
  have t: "index_text ''tile_7.png'' = ''7''" by (simp add: index_text_def)
  have i: "py_int ''7'' = Inr 7"
    by (simp add: py_int_def strip_def is_space_def is_digit_def digits_value_def digit_value_def)
  show ?thesis
    using grid_size_not_validated [of "''tile_7.png''" 5490 "- 1000" 7]
      grid_size_not_validated [of "''tile_7.png''" 500 "- 1000" 7] t i
    by simp
qed

text \<open>
  Claim C7 as stated fails: with grid size \<open>-1000\<close> the call returns a row and a
  column instead of failing.
\<close>

theorem negative_grid_size_returns:
  "index_to_location ''tile_7.png'' 5490 (- 1000) = Inr (- 2, - 3)"
  by (simp add: index_to_location_def py_floordiv_def py_mod_def py_index_def py_int_def
      strip_def is_space_def is_digit_def digits_value_def digit_value_def)

text \<open>
  Claim C10, as amended. \<open>index_to_location\<close> depends on the file name only through
  whether it has an underscore and through the text between the first underscore and
  the next dot; of that text it reads what comes before the next underscore
  (\<open>index_text\<close>) and ignores the rest: the result is the one written out below,
  in terms of \<^verbatim>\<open>int()\<close> of the index text alone. For a file name
  \<open>tile_<digits>.<ext>\<close> it returns the row and column of the index the digits
  denote (\<open>str(n)\<close> is such a digit string, denoting \<open>n\<close>), for
  \<open>tile_-<digits>.<ext>\<close> those of the negated index, whatever the extension, and
  for \<open>tile_<digits>_<anything>\<close> again those of the digits' index; this needs
  \<open>grid_size \<noteq> 0\<close> and \<open>width // grid_size \<noteq> -1\<close>. With
  \<open>grid_size \<noteq> 0\<close>, a file name without an underscore fails with IndexError, and
  one whose index text \<^verbatim>\<open>int()\<close> does not accept fails with ValueError.
\<close>

theorem index_parsed_from_name_segment:
  "((CHR ''_'' \<in> set fa \<longleftrightarrow> CHR ''_'' \<in> set fb) \<longrightarrow> segment_spec fa = segment_spec fb \<longrightarrow>
      index_to_location fa w g = index_to_location fb w g)
   \<and> (ds \<noteq> [] \<longrightarrow> list_all is_digit ds \<longrightarrow> g \<noteq> 0 \<longrightarrow> w div g \<noteq> - 1 \<longrightarrow>
        index_to_location (''tile_'' @ ds @ ''.'' @ ext) w g =
          Inr (digits_value ds div (w div g + 1), digits_value ds mod (w div g + 1)))
   \<and> (ds \<noteq> [] \<longrightarrow> list_all is_digit ds \<longrightarrow> g \<noteq> 0 \<longrightarrow> w div g \<noteq> - 1 \<longrightarrow>
        index_to_location (''tile_'' @ (CHR ''-'' # ds) @ ''.'' @ ext) w g =
          Inr ((- digits_value ds) div (w div g + 1), (- digits_value ds) mod (w div g + 1)))
   \<and> (py_str_nat n \<noteq> [] \<and> list_all is_digit (py_str_nat n)
        \<and> digits_value (py_str_nat n) = int n)
   \<and> (g \<noteq> 0 \<longrightarrow> CHR ''_'' \<notin> set f \<longrightarrow> index_to_location f w g = Inl IndexError)
   \<and> (g \<noteq> 0 \<longrightarrow> CHR ''_'' \<in> set f \<longrightarrow> py_int (index_text f) = Inl e \<longrightarrow>
        index_to_location f w g = Inl ValueError)
   \<and> index_text f = takeWhile (\<lambda>x. x \<noteq> CHR ''_'') (segment_spec f)
   \<and> index_to_location f w g =
        (if g = 0 then Inl ZeroDivisionError
         else if CHR ''_'' \<notin> set f then Inl IndexError
         else (case py_int (index_text f) of
                 Inl e \<Rightarrow> Inl ValueError
               | Inr idx \<Rightarrow>
                   if w div g = - 1 then Inl ZeroDivisionError
                   else Inr (idx div (w div g + 1), idx mod (w div g + 1))))
   \<and> (ds \<noteq> [] \<longrightarrow> list_all is_digit ds \<longrightarrow> g \<noteq> 0 \<longrightarrow> w div g \<noteq> - 1 \<longrightarrow>
        index_to_location (''tile_'' @ ds @ CHR ''_'' # rest) w g =
          Inr (digits_value ds div (w div g + 1), digits_value ds mod (w div g + 1)))"
proof -
  have dep: "(CHR ''_'' \<in> set fa \<longleftrightarrow> CHR ''_'' \<in> set fb) \<longrightarrow> segment_spec fa = segment_spec fb \<longrightarrow>
      index_to_location fa w g = index_to_location fb w g"
    by (simp add: index_to_location_unfold index_text_segment_spec)
  have tile: "ds \<noteq> [] \<longrightarrow> list_all is_digit ds \<longrightarrow> g \<noteq> 0 \<longrightarrow> w div g \<noteq> - 1 \<longrightarrow>
        index_to_location (''tile_'' @ ds @ ''.'' @ ext) w g =
          Inr (digits_value ds div (w div g + 1), digits_value ds mod (w div g + 1))"
    using index_to_location_tile [of ds g w ext] by blast
  have neg: "ds \<noteq> [] \<longrightarrow> list_all is_digit ds \<longrightarrow> g \<noteq> 0 \<longrightarrow> w div g \<noteq> - 1 \<longrightarrow>
        index_to_location (''tile_'' @ (CHR ''-'' # ds) @ ''.'' @ ext) w g =
          Inr ((- digits_value ds) div (w div g + 1), (- digits_value ds) mod (w div g + 1))"
    using index_to_location_minus_tile [of ds g w ext] by blast
  have str: "py_str_nat n \<noteq> [] \<and> list_all is_digit (py_str_nat n)
        \<and> digits_value (py_str_nat n) = int n"
    using py_str_nat_digits [of n] digits_value_py_str_nat [of n] by simp
  have noidx: "g \<noteq> 0 \<longrightarrow> CHR ''_'' \<notin> set f \<longrightarrow> index_to_location f w g = Inl IndexError"
    by (simp add: index_to_location_unfold)
  have bad: "g \<noteq> 0 \<longrightarrow> CHR ''_'' \<in> set f \<longrightarrow> py_int (index_text f) = Inl e \<longrightarrow>
        index_to_location f w g = Inl ValueError"
    using py_int_error [of "index_text f" e] by (auto simp: index_to_location_unfold)
  have itext: "index_text f = takeWhile (\<lambda>x. x \<noteq> CHR ''_'') (segment_spec f)"
    by (rule index_text_segment_spec)
  have whole: "index_to_location f w g =
        (if g = 0 then Inl ZeroDivisionError
         else if CHR ''_'' \<notin> set f then Inl IndexError
         else (case py_int (index_text f) of
                 Inl e \<Rightarrow> Inl ValueError
               | Inr idx \<Rightarrow>
                   if w div g = - 1 then Inl ZeroDivisionError
                   else Inr (idx div (w div g + 1), idx mod (w div g + 1))))"
    by (rule index_to_location_by_text)
  have snd_us: "ds \<noteq> [] \<longrightarrow> list_all is_digit ds \<longrightarrow> g \<noteq> 0 \<longrightarrow> w div g \<noteq> - 1 \<longrightarrow>
        index_to_location (''tile_'' @ ds @ CHR ''_'' # rest) w g =
          Inr (digits_value ds div (w div g + 1), digits_value ds mod (w div g + 1))"
    using index_to_location_terminated [of ds "CHR ''_''" g w rest] by blast
  show ?thesis
    apply (intro conjI)
    apply (rule dep)
    apply (rule tile)
    apply (rule neg)
    using str apply blast
    using str apply blast
    using str apply blast
    apply (rule noidx)
    apply (rule bad)
    apply (rule itext)
    apply (rule whole)
    apply (rule snd_us)
    done
qed

text \<open>
  The theorem at two names with the same index text, at \<open>tile_12.png\<close>,
  \<open>tile_-12.png\<close> and \<open>tile_12_b.png\<close>, at a name without an underscore and at a
  name whose index text is not a number.
\<close>

theorem index_parsed_from_name_segment_example:
  "index_to_location ''tile_7.png'' 5490 1000 = index_to_location ''scene_7.tif'' 5490 1000
   \<and> index_to_location (''tile_'' @ ''12'' @ ''.'' @ ''png'') 5490 1000 = Inr (2, 0)
   \<and> index_to_location (''tile_'' @ (CHR ''-'' # ''12'') @ ''.'' @ ''png'') 5490 1000
       = Inr (- 2, 0)
   \<and> index_to_location (''tile_'' @ ''12'' @ CHR ''_'' # ''b.png'') 5490 1000 = Inr (2, 0)
   \<and> index_text ''tile_12_b.png'' = ''12''
   \<and> index_to_location ''tile7.png'' 5490 1000 = Inl IndexError
   \<and> index_to_location ''tile_x.png'' 5490 1000 = Inl ValueError"
proof -
  note t = index_parsed_from_name_segment
    [where fa = "''tile_7.png''" and fb = "''scene_7.tif''" and w = 5490 and g = 1000
       and ds = "''12''" and ext = "''png''" and rest = "''b.png''"]
  have a: "index_to_location ''tile_7.png'' 5490 1000 = index_to_location ''scene_7.tif'' 5490 1000"
    using t [where f = "''tile7.png''"] by (simp add: segment_spec_def)
  have b: "index_to_location (''tile_'' @ ''12'' @ ''.'' @ ''png'') 5490 1000 = Inr (2, 0)"
    using t [where f = "''tile7.png''"]
    by (simp add: is_digit_def digits_value_def digit_value_def)
  have b': "index_to_location (''tile_'' @ (CHR ''-'' # ''12'') @ ''.'' @ ''png'') 5490 1000
       = Inr (- 2, 0)"
    using t [where f = "''tile7.png''"]
    by (simp add: is_digit_def digits_value_def digit_value_def)
  have b'': "index_to_location (''tile_'' @ ''12'' @ CHR ''_'' # ''b.png'') 5490 1000 = Inr (2, 0)"
    using t [where f = "''tile7.png''"]
    by (simp add: is_digit_def digits_value_def digit_value_def)
  have b3: "index_text ''tile_12_b.png'' = ''12''"
    using t [where f = "''tile_12_b.png''"] by (simp add: segment_spec_def)
  have c: "index_to_location ''tile7.png'' 5490 1000 = Inl IndexError"
    using t [where f = "''tile7.png''"] by simp
  have d: "index_to_location ''tile_x.png'' 5490 1000 = Inl ValueError"
    using t [where f = "''tile_x.png''" and e = ValueError]
    by (simp add: index_text_def py_int_def strip_def is_space_def is_digit_def)
  from a b b' b'' b3 c d show ?thesis by blast
qed

text \<open>
  Claim C10 as stated fails where it says that the parse fails whenever the text
  between the first underscore and the next dot is not a decimal integer: for
  \<open>tile_7_x.png\<close> that text is \<open>7_x\<close>, which \<^verbatim>\<open>int()\<close> refuses, and the call
  returns the location of index 7.
\<close>

theorem second_underscore_ends_index:
  "segment_spec ''tile_7_x.png'' = ''7_x''
   \<and> py_int ''7_x'' = Inl ValueError
   \<and> index_to_location ''tile_7_x.png'' 5490 1000 = Inr (1, 1)"
  by (simp add: segment_spec_def index_to_location_def py_floordiv_def py_mod_def py_index_def
      py_int_def strip_def is_space_def is_digit_def digits_value_def digit_value_def)

section \<open>The rule engine: the claims\<close>

text \<open>
  Claim C2, as amended. For every rule list and statistics tuple, the per-tile loop
  of \<open>apply_rules\<close> accepts (leaves \<^verbatim>\<open>done\<close> false and \<^verbatim>\<open>rejects\<close> as it was)
  if and only if every rule predicate answers true. Otherwise, when the rules before
  some rule answer true and that rule answers false, the loop stops there: the later
  rules are not consulted (the result is the same whatever they are, also if they
  would raise), \<^verbatim>\<open>done\<close> is set and the file name alone is appended to
  \<^verbatim>\<open>rejects\<close>. No rule identity and no reason is recorded.
\<close>

theorem first_failing_rule_rejects:
  "(snd (rules_loop rules st f rejects) = Inr False \<longleftrightarrow> (\<forall>rule\<in>set rules. rule st = Inr True))
   \<and> ((\<forall>rule\<in>set rules. rule st = Inr True) \<longrightarrow>
        rules_loop rules st f rejects = (rejects, Inr False))
   \<and> ((\<forall>rule\<in>set pre. rule st = Inr True) \<longrightarrow> r st = Inr False \<longrightarrow>
        rules_loop (pre @ r # post) st f rejects = (rejects @ [f], Inr True))
   \<and> (snd (rules_loop rules st f rejects) = Inr True \<longrightarrow>
        (\<exists>pre r post. rules = pre @ r # post \<and> (\<forall>rule\<in>set pre. rule st = Inr True)
           \<and> r st = Inr False))"
proof -
  have a: "snd (rules_loop rules st f rejects) = Inr False \<longleftrightarrow> (\<forall>rule\<in>set rules. rule st = Inr True)"
    by (simp add: rules_loop_accepts all_rules_pass_def list_all_iff)
  have b: "(\<forall>rule\<in>set rules. rule st = Inr True) \<longrightarrow>
        rules_loop rules st f rejects = (rejects, Inr False)"
    using rules_loop_shape [of rules st f rejects] rules_loop_accepts [of rules st f "[]"]
    by (auto simp: all_rules_pass_def list_all_iff)
  have c: "(\<forall>rule\<in>set pre. rule st = Inr True) \<longrightarrow> r st = Inr False \<longrightarrow>
        rules_loop (pre @ r # post) st f rejects = (rejects @ [f], Inr True)"
    using rules_loop_first_false [of st pre r post f rejects] by (simp add: list_all_iff)
  have d: "snd (rules_loop rules st f rejects) = Inr True \<longrightarrow>
        (\<exists>pre r post. rules = pre @ r # post \<and> (\<forall>rule\<in>set pre. rule st = Inr True)
           \<and> r st = Inr False)"
    using rules_loop_rejects_split [of rules st f rejects] by (simp add: list_all_iff)
  from a b c d show ?thesis by blast
qed

text \<open>
  The theorem at the statistics \<open>(5, 80)\<close>, where the land rule passes and the cloud
  rule fails before a rule that would raise, and at \<open>(5, 20)\<close>, where both pass.
\<close>

theorem first_failing_rule_rejects_example:
  "rules_loop [sample_land_rule, sample_cloud_rule, sample_broken_rule] (5, 80)
       ''tile_3.png'' [''tile_1.png'']
     = ([''tile_1.png'', ''tile_3.png''], Inr True)
   \<and> rules_loop [sample_land_rule, sample_cloud_rule] (5, 20) ''tile_3.png'' [''tile_1.png'']
     = ([''tile_1.png''], Inr False)"
proof -
  have a: "rules_loop ([sample_land_rule] @ sample_cloud_rule # [sample_broken_rule]) (5, 80)
       ''tile_3.png'' [''tile_1.png''] = ([''tile_1.png''] @ [''tile_3.png''], Inr True)"
    using first_failing_rule_rejects
      [where pre = "[sample_land_rule]" and r = sample_cloud_rule
         and post = "[sample_broken_rule]" and st = "(5, 80)" and f = "''tile_3.png''"
         and rejects = "[''tile_1.png'']" and rules = "[]"]
    by (simp add: sample_land_rule_def sample_cloud_rule_def)
  have b: "rules_loop [sample_land_rule, sample_cloud_rule] (5, 20) ''tile_3.png'' [''tile_1.png'']
     = ([''tile_1.png''], Inr False)"
    using first_failing_rule_rejects
      [where rules = "[sample_land_rule, sample_cloud_rule]" and st = "(5, 20)"
         and f = "''tile_3.png''" and rejects = "[''tile_1.png'']" and pre = "[]"
         and r = sample_cloud_rule and post = "[]"]
    by (simp add: sample_land_rule_def sample_cloud_rule_def)
  from a b show ?thesis by simp
qed

text \<open>
  Claim C2 as stated fails where it says that the first failing rule's identity is
  the recorded reason: a tile whose first failing rule is the cloud rule (position 1)
  and a tile whose first failing rule is the land rule (position 0) leave the same
  result, the file name in \<^verbatim>\<open>rejects\<close> and \<^verbatim>\<open>done\<close> set.
\<close>

theorem rejection_records_no_rule:
  "rules_loop [sample_land_rule, sample_cloud_rule] (5, 80) ''tile_3.png'' []
     = ([''tile_3.png''], Inr True)
   \<and> first_failing [sample_land_rule, sample_cloud_rule] (5, 80) = Some 1
   \<and> rules_loop [sample_land_rule, sample_cloud_rule] (50, 20) ''tile_3.png'' []
     = ([''tile_3.png''], Inr True)
   \<and> first_failing [sample_land_rule, sample_cloud_rule] (50, 20) = Some 0"
  by (simp add: sample_land_rule_def sample_cloud_rule_def)

text \<open>
  Claim C3. \<open>apply_rules\<close> is a stable partition of its candidates: when no rule
  raises on a candidate's statistics, the returned list is the candidates that pass
  every rule, in input order, and the caller's \<^verbatim>\<open>rejects\<close> is its former contents
  followed by the other candidates, in input order.
\<close>

theorem apply_rules_stable_partition:
  assumes "list_all (\<lambda>f. no_rule_raises rules (tile_statistics img config subdirectory f))
             candidates"
  shows "apply_rules img config candidates rejects subdirectory rules =
           (rejects @ filter (\<lambda>f. \<not> all_rules_pass rules
                                     (tile_statistics img config subdirectory f)) candidates,
            Inr (filter (\<lambda>f. all_rules_pass rules
                               (tile_statistics img config subdirectory f)) candidates))"
  using candidates_loop_partition [OF assms, of rejects "[]"]
  by (simp add: apply_rules_def)

text \<open>
  The theorem at three candidates of which only the second fails a rule: the first
  and third are returned, the second is appended to \<^verbatim>\<open>rejects\<close>.
\<close>

theorem apply_rules_stable_partition_example:
  "apply_rules sample_collaborators sample_config
     [''tile_0.png'', ''tile_1.png'', ''tile_2.png''] [''old.png''] ''land''
     [sample_land_rule, sample_cloud_rule]
   = ([''old.png'', ''tile_1.png''], Inr [''tile_0.png'', ''tile_2.png''])"
proof -
  have st:
    "tile_statistics sample_collaborators sample_config ''land'' ''tile_0.png'' = (5, 20)"
    "tile_statistics sample_collaborators sample_config ''land'' ''tile_1.png'' = (50, 20)"
    "tile_statistics sample_collaborators sample_config ''land'' ''tile_2.png'' = (5, 20)"
    by (simp_all add: tile_statistics_def sample_collaborators_def sample_config_def
        path_join_def join_step_def startswith_def endswith_def)
  have h: "list_all (\<lambda>f. no_rule_raises [sample_land_rule, sample_cloud_rule]
             (tile_statistics sample_collaborators sample_config ''land'' f))
             [''tile_0.png'', ''tile_1.png'', ''tile_2.png'']"
    by (simp add: st no_rule_raises_def sample_land_rule_def sample_cloud_rule_def)
  show ?thesis
    using apply_rules_stable_partition [OF h, of "[''old.png'']"]
    by (simp add: st all_rules_pass_def sample_land_rule_def sample_cloud_rule_def)
qed

text \<open>
  Claim C8. \<open>apply_rules\<close> only appends to \<^verbatim>\<open>rejects\<close>: after every call, also one
  that ends with an exception, the list is its former contents followed by what the
  same call appends to an empty list, so the former contents are a prefix of it; the
  returned value does not depend on the former contents; and after a second call on
  the list the first call left, the contents before the first call are still a prefix.
\<close>

theorem rejects_append_only:
  "fst (apply_rules img config candidates rejects subdirectory rules) =
     rejects @ fst (apply_rules img config candidates [] subdirectory rules)
   \<and> snd (apply_rules img config candidates rejects subdirectory rules) =
     snd (apply_rules img config candidates [] subdirectory rules)
   \<and> prefix rejects (fst (apply_rules img config candidates rejects subdirectory rules))
   \<and> prefix rejects
       (fst (apply_rules img config candidates'
               (fst (apply_rules img config candidates rejects subdirectory rules))
               subdirectory' rules'))"
proof -
  have a: "\<And>cs rj sd rs. apply_rules img config cs rj sd rs =
      (rj @ fst (apply_rules img config cs [] sd rs), snd (apply_rules img config cs [] sd rs))"
    unfolding apply_rules_def by (rule candidates_loop_frame)
  have 1: "fst (apply_rules img config candidates rejects subdirectory rules) =
     rejects @ fst (apply_rules img config candidates [] subdirectory rules)"
    by (subst a) simp
  have 2: "snd (apply_rules img config candidates rejects subdirectory rules) =
     snd (apply_rules img config candidates [] subdirectory rules)"
    by (subst a) simp
  have 3: "fst (apply_rules img config candidates'
               (fst (apply_rules img config candidates rejects subdirectory rules))
               subdirectory' rules') =
      rejects @ fst (apply_rules img config candidates [] subdirectory rules)
        @ fst (apply_rules img config candidates' [] subdirectory' rules')"
    by (subst a) (simp add: 1)
  show ?thesis
    using 1 2 3 by simp
qed

section \<open>The manifest record builder: the claims\<close>

text \<open>
  Claim C5. \<open>build_dict_for_csv\<close> takes the row and column from
  \<open>index_to_location\<close> at the scene's recorded width and grid size
  (\<^verbatim>\<open>config.width\<close>, \<^verbatim>\<open>config.GRID_SIZE\<close>), not from the tile's own dimensions,
  and fails as that call fails. The record is composed in a fixed order of precedence:
  at every key the scene metadata's value if it has one, else the coordinate block's
  value if it has one, else the identity field (\<open>#filename1\<close>, \<open>#filename2\<close>,
  \<open>#reason\<close>, \<open>#row\<close>, \<open>#column\<close>, \<open>#width\<close>, \<open>#height\<close>), so that
  on a key collision the later source overwrites the earlier one. The coordinate mapper
  is called with that row and column and with the tile's own width and height.
\<close>

theorem record_built_in_precedence_order:
  "(index_to_location filename (width config) (GRID_SIZE config) = Inl e \<longrightarrow>
      build_dict_for_csv gis filename reason config = Inl e)
   \<and> (index_to_location filename (width config) (GRID_SIZE config) = Inr (row, column) \<longrightarrow>
      get_dimensions gis (path_join (SCRATCH_PATH config) [''scene'', filename]) = (tw, th) \<longrightarrow>
      (\<exists>d. build_dict_for_csv gis filename reason config = Inr d
         \<and> (\<forall>key. d key =
              (case METADATA config key of
                 Some v \<Rightarrow> Some v
               | None \<Rightarrow>
                   (case compute_coordinate_metadata gis row column tw th config key of
                      Some v \<Rightarrow> Some v
                    | None \<Rightarrow> identity_fields filename reason row column tw th key)))))
   \<and> dom (identity_fields filename reason row column tw th :: 'v dict) = identity_keys
   \<and> (identity_fields filename reason row column tw th :: 'v dict) ''#row'' = Some (IntV row)
   \<and> (identity_fields filename reason row column tw th :: 'v dict) ''#column''
       = Some (IntV column)
   \<and> (identity_fields filename reason row column tw th :: 'v dict) ''#width'' = Some (IntV tw)
   \<and> (identity_fields filename reason row column tw th :: 'v dict) ''#height'' = Some (IntV th)
   \<and> (identity_fields filename reason row column tw th :: 'v dict) ''#reason''
       = Some (StrV reason)"
proof -
  have a: "index_to_location filename (width config) (GRID_SIZE config) = Inl e \<longrightarrow>
      build_dict_for_csv gis filename reason config = Inl e"
    using build_dict_for_csv_error [of filename config e gis reason] by blast
  have b: "index_to_location filename (width config) (GRID_SIZE config) = Inr (row, column) \<longrightarrow>
      get_dimensions gis (path_join (SCRATCH_PATH config) [''scene'', filename]) = (tw, th) \<longrightarrow>
      (\<exists>d. build_dict_for_csv gis filename reason config = Inr d
         \<and> (\<forall>key. d key =
              (case METADATA config key of
                 Some v \<Rightarrow> Some v
               | None \<Rightarrow>
                   (case compute_coordinate_metadata gis row column tw th config key of
                      Some v \<Rightarrow> Some v
                    | None \<Rightarrow> identity_fields filename reason row column tw th key))))"
    using build_dict_for_csv_ok [of filename config row column gis tw th reason]
    by (simp add: map_add_lookup3)
  show ?thesis
    using a b by (simp add: identity_fields_values identity_fields_dom)
qed

text \<open>
  The theorem at tile 7 of the sample scene, with scene metadata that reuses the keys
  \<open>x\<close> (of the coordinate block) and \<open>#reason\<close> (an identity field).
\<close>

theorem record_built_in_precedence_order_example:
  "(case build_dict_for_csv sample_collaborators ''tile_7.png'' ''Accepted''
           (sample_config\<lparr>width := 5490, height := 5490,
              METADATA := [''x'' \<mapsto> StrV ''scene'', ''#reason'' \<mapsto> StrV ''kept'']\<rparr>) of
      Inl e \<Rightarrow> []
    | Inr d \<Rightarrow> [d ''#row'', d ''#column'', d ''#width'', d ''y'', d ''x'', d ''#reason''])
   = [Some (IntV 1), Some (IntV 1), Some (IntV 1000), Some (IntV 1000),
      Some (StrV ''scene''), Some (StrV ''kept'')]"
proof -
  let ?c = "sample_config\<lparr>width := 5490, height := 5490,
              METADATA := [''x'' \<mapsto> StrV ''scene'', ''#reason'' \<mapsto> StrV ''kept'']\<rparr>"
  have l: "index_to_location ''tile_7.png'' (width ?c) (GRID_SIZE ?c) = Inr (1, 1)"
    by (simp add: sample_config_def sample_location)
  have g: "get_dimensions sample_collaborators
             (path_join (SCRATCH_PATH ?c) [''scene'', ''tile_7.png'']) = (1000, 1000)"
    by (simp add: sample_config_def sample_collaborators_def sample_scene_path)
  from record_built_in_precedence_order
         [of "''tile_7.png''" ?c ZeroDivisionError sample_collaborators "''Accepted''" 1 1
            1000 1000]
  obtain d where d: "build_dict_for_csv sample_collaborators ''tile_7.png'' ''Accepted'' ?c = Inr d"
    and k: "\<And>key. d key =
              (case METADATA ?c key of
                 Some v \<Rightarrow> Some v
               | None \<Rightarrow>
                   (case compute_coordinate_metadata sample_collaborators 1 1 1000 1000 ?c key of
                      Some v \<Rightarrow> Some v
                    | None \<Rightarrow> identity_fields ''tile_7.png'' ''Accepted'' 1 1 1000 1000 key))"
    using l g by blast
  have m: "METADATA ?c = [''x'' \<mapsto> StrV ''scene'', ''#reason'' \<mapsto> StrV ''kept'']"
    by simp
  have cm: "compute_coordinate_metadata sample_collaborators 1 1 1000 1000 ?c
      = [''x'' \<mapsto> IntV 1000, ''y'' \<mapsto> IntV 1000]"
    by (simp add: sample_collaborators_def)
  have "[d ''#row'', d ''#column'', d ''#width'', d ''y'', d ''x'', d ''#reason'']
      = [Some (IntV 1), Some (IntV 1), Some (IntV 1000), Some (IntV 1000),
         Some (StrV ''scene''), Some (StrV ''kept'')]"
    unfolding k m cm by (simp add: identity_fields_def)
  then show ?thesis by (simp add: d)
qed

text \<open>
  Claim C6. Within one run, that is for one configuration (and so one scene metadata
  mapping) and a coordinate mapper whose output has the same keys whatever the tile,
  every record \<open>build_dict_for_csv\<close> builds has the same key set: the identity
  keys, the coordinate keys and the metadata keys.
\<close>

theorem manifest_schema_stable:
  assumes "\<forall>row column w h.
             dom (compute_coordinate_metadata gis row column w h config) = coordinate_keys"
      and "build_dict_for_csv gis filename reason config = Inr d"
      and "build_dict_for_csv gis filename' reason' config = Inr d'"
  shows "dom d = identity_keys \<union> coordinate_keys \<union> dom (METADATA config) \<and> dom d' = dom d"
proof -
  have "\<And>f r x. build_dict_for_csv gis f r config = Inr x \<Longrightarrow>
      dom x = identity_keys \<union> coordinate_keys \<union> dom (METADATA config)"
  proof -
    fix f r x
    assume "build_dict_for_csv gis f r config = Inr x"
    then obtain row column tw th where
      "x = identity_fields f r row column tw th
            ++ compute_coordinate_metadata gis row column tw th config
            ++ METADATA config"
      using build_dict_for_csv_cases by blast
    then show "dom x = identity_keys \<union> coordinate_keys \<union> dom (METADATA config)"
      using assms(1) by (auto simp: identity_fields_dom)
  qed
  with assms(2,3) show ?thesis by simp
qed

text \<open>The theorem at tiles 0 and 7 of the sample scene.\<close>

theorem manifest_schema_stable_example:
  "(case build_dict_for_csv sample_collaborators ''tile_0.png'' ''Accepted''
           (sample_config\<lparr>width := 5490, METADATA := [''scene'' \<mapsto> StrV ''foo'']\<rparr>) of
      Inl e \<Rightarrow> {}
    | Inr d \<Rightarrow> dom d)
   = identity_keys \<union> {''x'', ''y''} \<union> {''scene''}
   \<and> (case build_dict_for_csv sample_collaborators ''tile_7.png'' ''Accepted''
           (sample_config\<lparr>width := 5490, METADATA := [''scene'' \<mapsto> StrV ''foo'']\<rparr>) of
      Inl e \<Rightarrow> {}
    | Inr d \<Rightarrow> dom d)
   = identity_keys \<union> {''x'', ''y''} \<union> {''scene''}"
proof -
  let ?c = "sample_config\<lparr>width := 5490, METADATA := [''scene'' \<mapsto> StrV ''foo'']\<rparr>"
  have k: "\<forall>row column w h.
      dom (compute_coordinate_metadata sample_collaborators row column w h ?c) = {''x'', ''y''}"
    by (auto simp: sample_collaborators_def)
  have l0: "index_to_location ''tile_0.png'' (width ?c) (GRID_SIZE ?c) = Inr (0, 0)"
    by (simp add: sample_config_def sample_location)
  have l7: "index_to_location ''tile_7.png'' (width ?c) (GRID_SIZE ?c) = Inr (1, 1)"
    by (simp add: sample_config_def sample_location)
  obtain d where d: "build_dict_for_csv sample_collaborators ''tile_0.png'' ''Accepted'' ?c = Inr d"
    using build_dict_for_csv_ok [OF l0, of sample_collaborators] by (metis surj_pair)
  obtain d' where d': "build_dict_for_csv sample_collaborators ''tile_7.png'' ''Accepted'' ?c = Inr d'"
    using build_dict_for_csv_ok [OF l7, of sample_collaborators] by (metis surj_pair)
  have m: "dom (METADATA ?c) = {''scene''}" by simp
  show ?thesis
    using manifest_schema_stable [OF k d d'] by (simp add: d d' m)
qed

section \<open>The orchestrator: the claims\<close>

text \<open>
  Claim C4, as amended. Let the reject-tiles stage be enabled. When
  \<open>index_to_location\<close> succeeds on every file listed in the scene subdirectory, at
  the scene's width and the configured grid size, \<open>main\<close> ends normally, hands
  exactly the listed files to \<^verbatim>\<open>accept_tile\<close>, in listing order, and appends one
  record per file, built with the reason \<open>Accepted\<close>; no rule is consulted,
  \<open>main\<close> having no rule set. With the manifest stage enabled, one manifest is written
  and its rows are exactly these records, one per accepted tile; otherwise none is
  written. The \<open>#reason\<close> of a record is \<open>Accepted\<close> unless the scene metadata,
  or else the coordinate block, has a \<open>#reason\<close> of its own, which then replaces
  it. When \<open>index_to_location\<close> fails on a listed file, the run ends with that
  exception right after handing that file to \<^verbatim>\<open>accept_tile\<close>: the files listed
  after it are not routed and no manifest is written.
\<close>

theorem every_tile_accepted:
  fixes ext :: "('s, 'v) collaborators"
  assumes "parse_options ext argv config0 = Inr c"
      and "REJECT_TILES c"
      and "tiles = get_files_by_extension ext (path_join (SCRATCH_PATH c) [''scene'']) ''png''"
      and "scene_width = fst (get_dimensions ext (INPUT_FILE c))"
  shows "((\<forall>f\<in>set tiles. index_to_location f scene_width (GRID_SIZE c) = Inr (loc f)) \<longrightarrow>
            snd (main ext argv config0) = Inr ()
          \<and> accepted_files (fst (main ext argv config0)) = tiles
          \<and> manifests_written (fst (main ext argv config0)) =
              (if BUILD_MANIFEST c
               then [(manifest_path c, map (\<lambda>f. accepted_record ext c f (loc f)) tiles)]
               else []))
         \<and> accepted_record ext c f rc ''#reason'' =
             (case parse_metadata ext (SCENE_DIR c) (METADATA_SRC c) (JSON_SRC c) ''#reason'' of
                Some v \<Rightarrow> Some v
              | None \<Rightarrow>
                  (case compute_coordinate_metadata ext (fst rc) (snd rc)
                          (fst (get_dimensions ext (path_join (SCRATCH_PATH c) [''scene'', f])))
                          (snd (get_dimensions ext (path_join (SCRATCH_PATH c) [''scene'', f])))
                          (stage_config ext c) ''#reason'' of
                     Some v \<Rightarrow> Some v
                   | None \<Rightarrow> Some (StrV ''Accepted'')))
         \<and> (tiles = pre @ bad # post \<longrightarrow>
            (\<forall>f\<in>set pre. index_to_location f scene_width (GRID_SIZE c) = Inr (loc f)) \<longrightarrow>
            index_to_location bad scene_width (GRID_SIZE c) = Inl e \<longrightarrow>
              snd (main ext argv config0) = Inl e
            \<and> accepted_files (fst (main ext argv config0)) = pre @ [bad]
            \<and> manifests_written (fst (main ext argv config0)) = [])"
proof -
  have ok: "(\<forall>f\<in>set tiles. index_to_location f scene_width (GRID_SIZE c) = Inr (loc f)) \<longrightarrow>
            snd (main ext argv config0) = Inr ()
          \<and> accepted_files (fst (main ext argv config0)) = tiles
          \<and> manifests_written (fst (main ext argv config0)) =
              (if BUILD_MANIFEST c
               then [(manifest_path c, map (\<lambda>f. accepted_record ext c f (loc f)) tiles)]
               else [])"
    using main_accepts_all [OF assms(1,2,3), of loc] unfolding assms(4) by blast
  have fail: "tiles = pre @ bad # post \<longrightarrow>
            (\<forall>f\<in>set pre. index_to_location f scene_width (GRID_SIZE c) = Inr (loc f)) \<longrightarrow>
            index_to_location bad scene_width (GRID_SIZE c) = Inl e \<longrightarrow>
              snd (main ext argv config0) = Inl e
            \<and> accepted_files (fst (main ext argv config0)) = pre @ [bad]
            \<and> manifests_written (fst (main ext argv config0)) = []"
    using main_stops_at_failure [OF assms(1,2), of pre bad post loc e]
    unfolding assms(3,4) by blast
  show ?thesis
    using ok accepted_record_reason [of ext c f rc] fail by blast
qed

text \<open>
  The theorem at the sample scene, run with \<^verbatim>\<open>--reject --manifest\<close>: both tiles
  are accepted and both manifest rows carry the reason \<open>Accepted\<close>; and at the scene
  with a stray file \<open>bad.png\<close> listed second, where the run ends with IndexError
  after two calls of \<^verbatim>\<open>accept_tile\<close> and writes no manifest.
\<close>

theorem every_tile_accepted_example:
  "snd (main sample_collaborators
          [''simple.py'', ''--reject'', ''--manifest'', ''input/foo''] sample_config) = Inr ()
   \<and> accepted_files (fst (main sample_collaborators
          [''simple.py'', ''--reject'', ''--manifest'', ''input/foo''] sample_config))
       = [''tile_0.png'', ''tile_7.png'']
   \<and> reasons_written (fst (main sample_collaborators
          [''simple.py'', ''--reject'', ''--manifest'', ''input/foo''] sample_config))
       = [[Some (StrV ''Accepted''), Some (StrV ''Accepted'')]]
   \<and> snd (main sample_stray_collaborators
          [''simple.py'', ''--reject'', ''--manifest'', ''input/foo''] sample_config)
       = Inl IndexError
   \<and> accepted_files (fst (main sample_stray_collaborators
          [''simple.py'', ''--reject'', ''--manifest'', ''input/foo''] sample_config))
       = [''tile_0.png'', ''bad.png'']
   \<and> manifests_written (fst (main sample_stray_collaborators
          [''simple.py'', ''--reject'', ''--manifest'', ''input/foo''] sample_config)) = []"
proof -
  let ?argv = "[''simple.py'', ''--reject'', ''--manifest'', ''input/foo'']"
  let ?c = "sample_config\<lparr>REJECT_TILES := True, BUILD_MANIFEST := True,
          SCENE_NAME := Some ''foo'', SCENE_DIR := ''input/foo'',
          NEW_MASK := ''input/foo/B02.jp2'', METADATA_SRC := ''input/foo/metadata.xml'',
          JSON_SRC := ''input/foo/tileInfo.json'', INPUT_FILE := ''input/foo/B02.jp2''\<rparr>"
  let ?loc = "\<lambda>f. if f = ''tile_0.png'' then (0, 0) else (1, 1 :: int)"
  have sp: "SCRATCH_PATH ?c = ''scratch''" "GRID_SIZE ?c = 1000" "INPUT_FILE ?c = ''input/foo/B02.jp2''"
    "REJECT_TILES ?c" "BUILD_MANIFEST ?c"
    by (simp_all add: sample_config_def)
  have p: "parse_options sample_collaborators ?argv sample_config = Inr ?c"
    by (rule sample_parse_reject_manifest)
  have t: "[''tile_0.png'', ''tile_7.png''] = get_files_by_extension sample_collaborators
                      (path_join (SCRATCH_PATH ?c) [''scene'']) ''png''"
    by (simp add: sp sample_collaborators_def sample_scene_path)
  have w: "(5490 :: int) = fst (get_dimensions sample_collaborators (INPUT_FILE ?c))"
    by (simp add: sp sample_collaborators_def)
  have l: "\<forall>f\<in>set [''tile_0.png'', ''tile_7.png''].
      index_to_location f 5490 (GRID_SIZE ?c) = Inr (?loc f)"
    by (simp add: sp sample_location)
  note good = every_tile_accepted [OF p sp(4) t w, where loc = ?loc]
  have g1: "snd (main sample_collaborators ?argv sample_config) = Inr ()"
    and g2: "accepted_files (fst (main sample_collaborators ?argv sample_config))
       = [''tile_0.png'', ''tile_7.png'']"
    and g3: "manifests_written (fst (main sample_collaborators ?argv sample_config)) =
       [(manifest_path ?c, map (\<lambda>f. accepted_record sample_collaborators ?c f (?loc f))
          [''tile_0.png'', ''tile_7.png''])]"
    using good l sp(5) by auto
  have r: "\<And>f rc. accepted_record sample_collaborators ?c f rc ''#reason''
      = Some (StrV ''Accepted'')"
    using every_tile_accepted [OF p sp(4) t w]
    by (simp add: sample_collaborators_def)
  have g4: "reasons_written (fst (main sample_collaborators ?argv sample_config))
       = [[Some (StrV ''Accepted''), Some (StrV ''Accepted'')]]"
    by (simp add: reasons_written_def g3 r)
  have p': "parse_options sample_stray_collaborators ?argv sample_config = Inr ?c"
    using parse_options_scene_name_only [OF sample_variants_scene_name(1)] p by simp
  have t': "[''tile_0.png'', ''bad.png'', ''tile_7.png''] =
      get_files_by_extension sample_stray_collaborators
        (path_join (SCRATCH_PATH ?c) [''scene'']) ''png''"
    by (simp add: sample_stray_collaborators_def)
  have w': "(5490 :: int) = fst (get_dimensions sample_stray_collaborators (INPUT_FILE ?c))"
    by (simp add: sp sample_stray_collaborators_def sample_collaborators_def)
  have s: "[''tile_0.png'', ''bad.png'', ''tile_7.png''] = [''tile_0.png''] @ ''bad.png'' # [''tile_7.png'']"
    by simp
  have l': "\<forall>f\<in>set [''tile_0.png'']. index_to_location f 5490 (GRID_SIZE ?c) = Inr (?loc f)"
    by (simp add: sp sample_location)
  have b: "index_to_location ''bad.png'' 5490 (GRID_SIZE ?c) = Inl IndexError"
    by (simp add: sp sample_zero_location)
  have bad: "snd (main sample_stray_collaborators ?argv sample_config) = Inl IndexError
     \<and> accepted_files (fst (main sample_stray_collaborators ?argv sample_config))
         = [''tile_0.png''] @ [''bad.png'']
     \<and> manifests_written (fst (main sample_stray_collaborators ?argv sample_config)) = []"
    using every_tile_accepted [OF p' sp(4) t' w', where loc = ?loc and pre = "[''tile_0.png'']"
        and bad = "''bad.png''" and post = "[''tile_7.png'']" and e = IndexError] s l' b
    by blast
  show ?thesis
    using g1 g2 g4 bad by simp
qed

text \<open>
  Claim C4 as stated fails in two places. With \<^verbatim>\<open>--grid-size=0\<close> the scene
  subdirectory lists two tiles, but the run ends with ZeroDivisionError after the
  first \<^verbatim>\<open>accept_tile\<close>: the second tile is not routed and no manifest is written.
  And where the scene metadata has a \<open>#reason\<close>, the rows of the manifest carry
  that value, not \<open>Accepted\<close>.
\<close>

theorem run_stops_at_first_failing_tile:
  "get_files_by_extension sample_collaborators ''scratch/scene'' ''png''
     = [''tile_0.png'', ''tile_7.png'']
   \<and> snd (main sample_collaborators
          [''simple.py'', ''--reject'', ''--manifest'', ''--grid-size=0'', ''input/foo'']
          sample_config) = Inl ZeroDivisionError
   \<and> accepted_files (fst (main sample_collaborators
          [''simple.py'', ''--reject'', ''--manifest'', ''--grid-size=0'', ''input/foo'']
          sample_config)) = [''tile_0.png'']
   \<and> manifests_written (fst (main sample_collaborators
          [''simple.py'', ''--reject'', ''--manifest'', ''--grid-size=0'', ''input/foo'']
          sample_config)) = []
   \<and> accepted_files (fst (main sample_labelled_collaborators
          [''simple.py'', ''--reject'', ''--manifest'', ''input/foo''] sample_config))
       = [''tile_0.png'', ''tile_7.png'']
   \<and> reasons_written (fst (main sample_labelled_collaborators
          [''simple.py'', ''--reject'', ''--manifest'', ''input/foo''] sample_config))
       = [[Some (StrV ''kept''), Some (StrV ''kept'')]]"
proof -
  let ?zargv = "[''simple.py'', ''--reject'', ''--manifest'', ''--grid-size=0'', ''input/foo'']"
  let ?argv = "[''simple.py'', ''--reject'', ''--manifest'', ''input/foo'']"
  let ?z = "sample_config\<lparr>REJECT_TILES := True, BUILD_MANIFEST := True, GRID_SIZE := 0,
          SCENE_NAME := Some ''foo'', SCENE_DIR := ''input/foo'',
          NEW_MASK := ''input/foo/B02.jp2'', METADATA_SRC := ''input/foo/metadata.xml'',
          JSON_SRC := ''input/foo/tileInfo.json'', INPUT_FILE := ''input/foo/B02.jp2''\<rparr>"
  let ?c = "sample_config\<lparr>REJECT_TILES := True, BUILD_MANIFEST := True,
          SCENE_NAME := Some ''foo'', SCENE_DIR := ''input/foo'',
          NEW_MASK := ''input/foo/B02.jp2'', METADATA_SRC := ''input/foo/metadata.xml'',
          JSON_SRC := ''input/foo/tileInfo.json'', INPUT_FILE := ''input/foo/B02.jp2''\<rparr>"
  let ?loc = "\<lambda>f. if f = ''tile_0.png'' then (0, 0) else (1, 1 :: int)"
  have ls: "get_files_by_extension sample_collaborators ''scratch/scene'' ''png''
     = [''tile_0.png'', ''tile_7.png'']"
    by (simp add: sample_collaborators_def)
  have z: "SCRATCH_PATH ?z = ''scratch''" "GRID_SIZE ?z = 0" "INPUT_FILE ?z = ''input/foo/B02.jp2''"
    "REJECT_TILES ?z"
    by (simp_all add: sample_config_def)
  have tz: "get_files_by_extension sample_collaborators
        (path_join (SCRATCH_PATH ?z) [''scene'']) ''png'' = [] @ ''tile_0.png'' # [''tile_7.png'']"
    by (simp add: z sample_collaborators_def sample_scene_path)
  have bz: "index_to_location ''tile_0.png''
        (fst (get_dimensions sample_collaborators (INPUT_FILE ?z))) (GRID_SIZE ?z)
      = Inl ZeroDivisionError"
    by (simp add: z sample_collaborators_def sample_zero_location)
  have zero: "snd (main sample_collaborators ?zargv sample_config) = Inl ZeroDivisionError
     \<and> accepted_files (fst (main sample_collaborators ?zargv sample_config)) = [] @ [''tile_0.png'']
     \<and> manifests_written (fst (main sample_collaborators ?zargv sample_config)) = []"
  proof -
    have l0: "\<forall>f\<in>set [].
        index_to_location f (fst (get_dimensions sample_collaborators (INPUT_FILE ?z)))
          (GRID_SIZE ?z) = Inr (?loc f)"
      by simp
    show ?thesis
      by (rule main_stops_at_failure [OF sample_parse_grid_zero z(4) tz l0 bz])
  qed
  have sp: "SCRATCH_PATH ?c = ''scratch''" "GRID_SIZE ?c = 1000" "INPUT_FILE ?c = ''input/foo/B02.jp2''"
    "REJECT_TILES ?c" "BUILD_MANIFEST ?c"
    by (simp_all add: sample_config_def)
  have p: "parse_options sample_labelled_collaborators ?argv sample_config = Inr ?c"
    using parse_options_scene_name_only [OF sample_variants_scene_name(3)]
      sample_parse_reject_manifest by simp
  have t: "[''tile_0.png'', ''tile_7.png''] = get_files_by_extension sample_labelled_collaborators
                      (path_join (SCRATCH_PATH ?c) [''scene'']) ''png''"
    by (simp add: sp sample_labelled_collaborators_def sample_collaborators_def sample_scene_path)
  have l: "\<forall>f\<in>set [''tile_0.png'', ''tile_7.png''].
      index_to_location f (fst (get_dimensions sample_labelled_collaborators (INPUT_FILE ?c)))
        (GRID_SIZE ?c) = Inr (?loc f)"
    by (simp add: sp sample_labelled_collaborators_def sample_collaborators_def sample_location)
  have g2: "accepted_files (fst (main sample_labelled_collaborators ?argv sample_config))
       = [''tile_0.png'', ''tile_7.png'']"
    and g3: "manifests_written (fst (main sample_labelled_collaborators ?argv sample_config)) =
       [(manifest_path ?c, map (\<lambda>f. accepted_record sample_labelled_collaborators ?c f (?loc f))
          [''tile_0.png'', ''tile_7.png''])]"
    using main_accepts_all [OF p sp(4) t l] sp(5) by auto
  have r: "\<And>f rc. accepted_record sample_labelled_collaborators ?c f rc ''#reason''
      = Some (StrV ''kept'')"
    by (simp add: accepted_record_reason sample_labelled_collaborators_def)
  have g4: "reasons_written (fst (main sample_labelled_collaborators ?argv sample_config))
       = [[Some (StrV ''kept''), Some (StrV ''kept'')]]"
    by (simp add: reasons_written_def g3 r)
  show ?thesis
    using ls zero g2 g4 by simp
qed

text \<open>
  Claim C9, as amended. \<^verbatim>\<open>build_scratch\<close> is called once when the rebuild flag
  is set or no scratch directory exists, and not at all in a run where the scratch
  directory exists and the rebuild flag is false. The slicing collaborator
  \<^verbatim>\<open>prepare_tiles\<close> is called exactly when the slicing flag
  (\<^verbatim>\<open>SLICE_IMAGE\<close>) is set, and then once, whether or not the scratch directory
  exists and whatever the rebuild flag.
\<close>

theorem scratch_reuse_and_slicing:
  fixes ext :: "('s, 'v) collaborators"
  assumes "parse_options ext argv config0 = Inr c"
  shows "(\<not> REBUILD c \<longrightarrow> scratch_exists ext (read_dimensions ext c) \<longrightarrow>
            BuildScratch \<notin> set (fst (main ext argv config0)))
         \<and> count_list (fst (main ext argv config0)) BuildScratch
             = (if REBUILD c \<or> \<not> scratch_exists ext (read_dimensions ext c) then 1 else 0)
         \<and> (PrepareTiles \<in> set (fst (main ext argv config0)) \<longleftrightarrow> SLICE_IMAGE c)
         \<and> count_list (fst (main ext argv config0)) PrepareTiles
             = (if SLICE_IMAGE c then 1 else 0)"
proof -
  have b: "count_list (fst (main ext argv config0)) BuildScratch
      = (if REBUILD c \<or> \<not> scratch_exists ext (read_dimensions ext c) then 1 else 0)"
    using main_event_count [OF assms, of BuildScratch] by (simp add: setup_trace_counts)
  have p: "count_list (fst (main ext argv config0)) PrepareTiles
      = (if SLICE_IMAGE c then 1 else 0)"
    using main_event_count [OF assms, of PrepareTiles] by (simp add: setup_trace_counts)
  have b': "\<not> REBUILD c \<longrightarrow> scratch_exists ext (read_dimensions ext c) \<longrightarrow>
      BuildScratch \<notin> set (fst (main ext argv config0))"
    using b by (auto simp: count_list_0_iff)
  have p': "PrepareTiles \<in> set (fst (main ext argv config0)) \<longleftrightarrow> SLICE_IMAGE c"
    using p count_list_0_iff [of "fst (main ext argv config0)" PrepareTiles]
    by (auto split: if_splits)
  from b b' p p' show ?thesis by blast
qed

text \<open>
  The theorem at the sample scene. With an existing scratch directory, a run with
  \<^verbatim>\<open>--reject --manifest\<close> calls neither collaborator and a run with
  \<^verbatim>\<open>--generate-tiles\<close> calls \<^verbatim>\<open>prepare_tiles\<close> once. Without a scratch
  directory, \<^verbatim>\<open>--generate-tiles\<close> calls \<^verbatim>\<open>build_scratch\<close> and
  \<^verbatim>\<open>prepare_tiles\<close> once each, and \<^verbatim>\<open>--reject --manifest\<close> does not call
  \<^verbatim>\<open>prepare_tiles\<close>.
\<close>

theorem scratch_reuse_and_slicing_example:
  "BuildScratch \<notin> set (fst (main sample_collaborators
          [''simple.py'', ''--reject'', ''--manifest'', ''input/foo''] sample_config))
   \<and> PrepareTiles \<notin> set (fst (main sample_collaborators
          [''simple.py'', ''--reject'', ''--manifest'', ''input/foo''] sample_config))
   \<and> count_list (fst (main sample_collaborators
          [''simple.py'', ''--generate-tiles'', ''input/foo''] sample_config)) PrepareTiles = 1
   \<and> count_list (fst (main sample_fresh_collaborators
          [''simple.py'', ''--generate-tiles'', ''input/foo''] sample_config)) PrepareTiles = 1
   \<and> count_list (fst (main sample_fresh_collaborators
          [''simple.py'', ''--generate-tiles'', ''input/foo''] sample_config)) BuildScratch = 1
   \<and> PrepareTiles \<notin> set (fst (main sample_fresh_collaborators
          [''simple.py'', ''--reject'', ''--manifest'', ''input/foo''] sample_config))"
proof -
  let ?c = "sample_config\<lparr>REJECT_TILES := True, BUILD_MANIFEST := True,
          SCENE_NAME := Some ''foo'', SCENE_DIR := ''input/foo'',
          NEW_MASK := ''input/foo/B02.jp2'', METADATA_SRC := ''input/foo/metadata.xml'',
          JSON_SRC := ''input/foo/tileInfo.json'', INPUT_FILE := ''input/foo/B02.jp2''\<rparr>"
  let ?d = "sample_config\<lparr>SLICE_IMAGE := True,
          SCENE_NAME := Some ''foo'', SCENE_DIR := ''input/foo'',
          NEW_MASK := ''input/foo/B02.jp2'', METADATA_SRC := ''input/foo/metadata.xml'',
          JSON_SRC := ''input/foo/tileInfo.json'', INPUT_FILE := ''input/foo/B02.jp2''\<rparr>"
  have rc: "\<not> REBUILD ?c" "\<not> SLICE_IMAGE ?c" by (simp_all add: sample_config_def)
  have rd: "\<not> REBUILD ?d" "SLICE_IMAGE ?d" by (simp_all add: sample_config_def)
  have s: "\<And>c. scratch_exists sample_collaborators c" by (simp add: sample_collaborators_def)
  have s': "\<And>c. \<not> scratch_exists sample_fresh_collaborators c"
    by (simp add: sample_fresh_collaborators_def)
  have pc: "parse_options sample_fresh_collaborators
      [''simple.py'', ''--reject'', ''--manifest'', ''input/foo''] sample_config = Inr ?c"
    using parse_options_scene_name_only [OF sample_variants_scene_name(2)]
      sample_parse_reject_manifest by simp
  have pd: "parse_options sample_fresh_collaborators
      [''simple.py'', ''--generate-tiles'', ''input/foo''] sample_config = Inr ?d"
    using parse_options_scene_name_only [OF sample_variants_scene_name(2)]
      sample_parse_generate_tiles by simp
  show ?thesis
    using scratch_reuse_and_slicing [OF sample_parse_reject_manifest]
      scratch_reuse_and_slicing [OF sample_parse_generate_tiles]
      scratch_reuse_and_slicing [OF pc] scratch_reuse_and_slicing [OF pd]
      rc rd s s'
    by simp
qed

text \<open>
  Claim C9 as stated fails where it says that \<^verbatim>\<open>prepare_tiles\<close> is never called:
  with \<^verbatim>\<open>--generate-tiles\<close>, an existing scratch directory and no rebuild, the run
  calls it.
\<close>

theorem slicing_runs_on_existing_scratch:
  "parse_options sample_collaborators
       [''simple.py'', ''--generate-tiles'', ''input/foo''] sample_config =
     Inr (sample_config\<lparr>SLICE_IMAGE := True,
            SCENE_NAME := Some ''foo'', SCENE_DIR := ''input/foo'',
            NEW_MASK := ''input/foo/B02.jp2'', METADATA_SRC := ''input/foo/metadata.xml'',
            JSON_SRC := ''input/foo/tileInfo.json'', INPUT_FILE := ''input/foo/B02.jp2''\<rparr>)
   \<and> \<not> REBUILD (sample_config\<lparr>SLICE_IMAGE := True,
            SCENE_NAME := Some ''foo'', SCENE_DIR := ''input/foo'',
            NEW_MASK := ''input/foo/B02.jp2'', METADATA_SRC := ''input/foo/metadata.xml'',
            JSON_SRC := ''input/foo/tileInfo.json'', INPUT_FILE := ''input/foo/B02.jp2''\<rparr>)
   \<and> scratch_exists sample_collaborators
        (read_dimensions sample_collaborators
          (sample_config\<lparr>SLICE_IMAGE := True,
            SCENE_NAME := Some ''foo'', SCENE_DIR := ''input/foo'',
            NEW_MASK := ''input/foo/B02.jp2'', METADATA_SRC := ''input/foo/metadata.xml'',
            JSON_SRC := ''input/foo/tileInfo.json'', INPUT_FILE := ''input/foo/B02.jp2''\<rparr>))
   \<and> fst (main sample_collaborators
          [''simple.py'', ''--generate-tiles'', ''input/foo''] sample_config)
       = [BuildOutput, PrepareTiles, MaybeCleanScratch]"
proof -
  let ?d = "sample_config\<lparr>SLICE_IMAGE := True,
            SCENE_NAME := Some ''foo'', SCENE_DIR := ''input/foo'',
            NEW_MASK := ''input/foo/B02.jp2'', METADATA_SRC := ''input/foo/metadata.xml'',
            JSON_SRC := ''input/foo/tileInfo.json'', INPUT_FILE := ''input/foo/B02.jp2''\<rparr>"
  have flags: "\<not> REBUILD ?d" "\<not> ASSEMBLE_IMAGE ?d" "SLICE_IMAGE ?d" "\<not> REJECT_TILES ?d"
    "\<not> BUILD_MANIFEST ?d" "\<not> ANNOTATE ?d"
    by (simp_all add: sample_config_def)
  have s: "scratch_exists sample_collaborators (read_dimensions sample_collaborators ?d)"
    by (simp add: sample_collaborators_def)
  have tr: "setup_trace sample_collaborators ?d = [BuildOutput, PrepareTiles]"
    unfolding setup_trace_events using flags s by simp
  have m: "fst (main sample_collaborators
          [''simple.py'', ''--generate-tiles'', ''input/foo''] sample_config)
       = [BuildOutput, PrepareTiles, MaybeCleanScratch]"
    unfolding main_def sample_parse_generate_tiles
    using flags by (simp add: run_stages_no_reject tr finish_stage_def stage_config_fields)
  show ?thesis
    using m sample_parse_generate_tiles flags(1) s by simp
qed

end
